theory Spec2Isabelle
  imports Complex_Main
begin

section \<open>Upstream JSON values and the Python operations used on them\<close>

text \<open>
  The catalog service answers with JSON; \<^verbatim>\<open>response.json()\<close> turns it into Python
  values. \<open>JNull\<close> is \<^verbatim>\<open>None\<close>, a dictionary is an association list whose first
  binding of a key is the one in force.
\<close>

datatype json =
    JNull
  | JBool bool
  | JInt int
  | JFloat real
  | JStr string
  | JList "json list"
  | JDict "(string \<times> json) list"

record response =
  status_code :: nat
  body :: "json option"
  resp_text :: string

text \<open>
  Everything the code can raise. \<open>HTTPError\<close> is \<^verbatim>\<open>requests.HTTPError\<close> with the
  response it carries, \<open>TransportError\<close> any other fault of the HTTP client (connection
  refused, timeout), \<open>HTTPException\<close> is FastAPI's, with its status code and detail. The
  detail keeps the message template and the values interpolated into it.
\<close>

datatype error =
    AttributeError
  | TypeError
  | ValidationError
  | JSONDecodeError
  | HTTPError "response option"
  | TransportError
  | HTTPException nat detail
and detail =
    Invalid_service_type
  | Service_not_found string
  | Failed_to_fetch_service_metadata error
  | Failed_to_extract_metadata error
  | Failed_to_list_tables error
  | Creation_failed_value json
  | Creation_failed_str_of_json json
  | Creation_failed_str_of_error error
  | Creation_failed_text string
  | Internal_server_error

definition bindE :: "error + 'a \<Rightarrow> ('a \<Rightarrow> error + 'b) \<Rightarrow> error + 'b" where
  "bindE m f = (case m of Inl e \<Rightarrow> Inl e | Inr x \<Rightarrow> f x)"

fun mapM :: "('a \<Rightarrow> error + 'b) \<Rightarrow> 'a list \<Rightarrow> error + 'b list" where
  "mapM f [] = Inr []"
| "mapM f (x # xs) = bindE (f x) (\<lambda>y. bindE (mapM f xs) (\<lambda>ys. Inr (y # ys)))"

text \<open>Python's truth test (\<^verbatim>\<open>if x\<close>, \<^verbatim>\<open>x or y\<close>, \<^verbatim>\<open>x and y\<close>).\<close>

fun truthy :: "json \<Rightarrow> bool" where
  "truthy JNull = False"
| "truthy (JBool b) = b"
| "truthy (JInt n) = (n \<noteq> 0)"
| "truthy (JFloat r) = (r \<noteq> 0)"
| "truthy (JStr s) = (s \<noteq> [])"
| "truthy (JList xs) = (xs \<noteq> [])"
| "truthy (JDict kvs) = (kvs \<noteq> [])"

text \<open>\<^verbatim>\<open>isinstance(x, dict)\<close>.\<close>

fun is_dict :: "json \<Rightarrow> bool" where
  "is_dict (JDict kvs) = True"
| "is_dict _ = False"

text \<open>
  \<^verbatim>\<open>x.get(key, default)\<close>: only a dictionary has the method; on any other value the
  attribute lookup raises AttributeError. \<^verbatim>\<open>x.get(key)\<close> is \<open>py_get x key JNull\<close>.
\<close>

definition dict_get :: "(string \<times> json) list \<Rightarrow> string \<Rightarrow> json \<Rightarrow> json" where
  "dict_get kvs k d = (case map_of kvs k of None \<Rightarrow> d | Some v \<Rightarrow> v)"

fun py_get :: "json \<Rightarrow> string \<Rightarrow> json \<Rightarrow> error + json" where
  "py_get (JDict kvs) k d = Inr (dict_get kvs k d)"
| "py_get _ k d = Inl AttributeError"

text \<open>
  Iterating a value (\<^verbatim>\<open>for x in v\<close>): a list gives its items, a string its characters
  as one-character strings, a dictionary its keys; anything else raises TypeError.
\<close>

fun py_iter :: "json \<Rightarrow> error + json list" where
  "py_iter (JList xs) = Inr xs"
| "py_iter (JStr s) = Inr (map (\<lambda>c. JStr [c]) s)"
| "py_iter (JDict kvs) = Inr (map JStr (remdups (map fst kvs)))"
| "py_iter _ = Inl TypeError"

text \<open>\<^verbatim>\<open>len(v)\<close>.\<close>

fun py_len :: "json \<Rightarrow> error + nat" where
  "py_len (JList xs) = Inr (length xs)"
| "py_len (JStr s) = Inr (length s)"
| "py_len (JDict kvs) = Inr (length (remdups (map fst kvs)))"
| "py_len _ = Inl TypeError"


section \<open>The canonical records\<close>

text \<open>
  Modelled from the spec: the classes of \<^verbatim>\<open>app.schemas\<close> (OwnerModel, TagModel,
  ColumnModel, TableModel, ...) are not part of the source. The fields the source reads
  with the default \<^verbatim>\<open>""\<close> are the required string identities of the spec: they
  hold strings, and the constructor refuses any other value with a validation error.
  Every other field holds the value it is given; a field the caller leaves out is null,
  a list-valued one empty.
\<close>

fun as_str :: "json \<Rightarrow> error + string" where
  "as_str (JStr s) = Inr s"
| "as_str _ = Inl ValidationError"

record tag_model =
  tagFQN :: string
  tag_description :: json
  tag_source :: json

record owner_model =
  owner_id :: json
  owner_name :: string
  owner_type :: string
  owner_fullyQualifiedName :: json

datatype column_model = ColumnModel
  (col_name: string)
  (col_dataType: json)
  (col_dataTypeDisplay: json)
  (col_description: json)
  (col_ordinalPosition: json)
  (col_constraint: json)
  (col_tags: "tag_model list")
  (col_nullable: json)
  (col_defaultValue: json)
  (col_precision: json)
  (col_scale: json)
  (col_maxLength: json)
  (col_arrayDataType: json)
  (col_dataLength: json)
  (col_jsonSchema: json)
  (col_fullyQualifiedName: json)
  (col_children: "column_model list")
  (col_customMetrics: json)

record table_model =
  tbl_id :: string
  tbl_name :: string
  tbl_fullyQualifiedName :: string
  tbl_tableType :: json
  tbl_description :: json
  tbl_displayName :: json
  tbl_owners :: "owner_model list"
  tbl_tags :: "tag_model list"
  tbl_columns :: "column_model list"
  tbl_column_count :: nat
  tbl_tableConstraints :: json
  tbl_partitionKeys :: json
  tbl_distributionKeys :: json
  tbl_sortKeys :: json
  tbl_tableProfile :: json
  tbl_sampleData :: json
  tbl_usageSummary :: json
  tbl_lineage :: json
  tbl_schemaDefinition :: json
  tbl_location :: json
  tbl_locationPath :: json
  tbl_fileFormat :: json
  tbl_retentionPeriod :: json
  tbl_sourceUrl :: json
  tbl_domains :: "string list"
  tbl_dataProducts :: "string list"
  tbl_lifeCycle :: json
  tbl_certification :: json
  tbl_votes :: json
  tbl_testSuite :: json
  tbl_queries :: json
  tbl_customMetrics :: json
  tbl_sourceHash :: json
  tbl_processedLineage :: json
  tbl_joins :: json
  tbl_followers :: "string list"

record schema_model =
  sch_id :: string
  sch_name :: string
  sch_fullyQualifiedName :: string
  sch_description :: json
  sch_tables :: "table_model list"
  sch_table_count :: nat
  sch_owners :: "owner_model list"
  sch_tags :: "tag_model list"
  sch_retentionPeriod :: json

record database_model =
  db_id :: string
  db_name :: string
  db_fullyQualifiedName :: string
  db_description :: json
  db_owners :: "owner_model list"
  db_schemas :: "schema_model list"
  db_schema_count :: nat
  db_table_count :: nat
  db_tags :: "tag_model list"
  db_location :: json
  db_databaseVersion :: json
  db_dataProducts :: "string list"
  db_usageSummary :: json
  db_retentionPeriod :: json
  db_sourceUrl :: json
  db_domains :: "string list"
  db_votes :: json
  db_lifeCycle :: json
  db_certification :: json
  db_followers :: "string list"
  db_sourceHash :: json
  db_default :: json

record service_model =
  svc_id :: string
  svc_name :: string
  svc_serviceType :: string
  svc_description :: json
  svc_displayName :: json
  svc_fullyQualifiedName :: string
  svc_owners :: "owner_model list"
  svc_tags :: "tag_model list"
  svc_connection :: json
  svc_version :: json
  svc_ingestionSchedule :: json
  svc_sourceUrl :: json
  svc_domains :: "string list"
  svc_dataProducts :: "string list"
  svc_lifeCycle :: json
  svc_certification :: json
  svc_votes :: json
  svc_followers :: "string list"
  svc_sourceHash :: json

record summary_stats =
  stats_total_databases :: nat
  stats_total_schemas :: nat
  stats_total_tables :: nat
  stats_total_columns :: nat

record metadata_summary =
  total_databases :: nat
  total_schemas :: nat
  total_tables :: nat
  total_columns :: nat
  total_views :: nat
  total_owners :: nat
  total_tags :: nat
  data_extraction_timestamp :: string

record database_metadata_response =
  resp_service :: service_model
  resp_databases :: "database_model list"
  resp_summary :: metadata_summary

record table_filter_info =
  filter_database_name :: "string option"
  filter_schema_name :: "string option"
  filter_include_columns :: bool

record tables_response =
  tr_service_name :: string
  tr_filter :: table_filter_info
  tr_tables :: "table_model list"
  tr_count :: nat


section \<open>Model Normalizer\<close>

lemma bindE_cong [fundef_cong]:
  "m = m' \<Longrightarrow> (\<And>x. m' = Inr x \<Longrightarrow> f x = f' x) \<Longrightarrow> bindE m f = bindE m' f'"
  by (auto simp: bindE_def split: sum.splits)

lemma mapM_cong [fundef_cong]:
  "xs = ys \<Longrightarrow> (\<And>x. x \<in> set ys \<Longrightarrow> f x = g x) \<Longrightarrow> mapM f xs = mapM g ys"
  by (induction ys arbitrary: xs) (auto simp: bindE_def split: sum.splits)

text \<open>
  \<^verbatim>\<open>TagModel(tagFQN=tag.get("tagFQN", ""), description=tag.get("description"),
  source=tag.get("source"))\<close>: the arguments are evaluated in order, then the
  constructor runs. The source writes this comprehension out at every entity; it is one
  function here.
\<close>

definition create_tag_model :: "json \<Rightarrow> error + tag_model" where
  "create_tag_model tag =
     bindE (py_get tag ''tagFQN'' (JStr [])) (\<lambda>fqn.
     bindE (py_get tag ''description'' JNull) (\<lambda>descr.
     bindE (py_get tag ''source'' JNull) (\<lambda>src.
     bindE (as_str fqn) (\<lambda>fqn'.
     Inr \<lparr>tagFQN = fqn', tag_description = descr, tag_source = src\<rparr>))))"

definition create_tag_models :: "json \<Rightarrow> error + tag_model list" where
  "create_tag_models tags = bindE (py_iter tags) (\<lambda>items. mapM create_tag_model items)"

text \<open>
  \<^verbatim>\<open>OwnerModel(id=owner.get("id"), name=owner.get("name", ""),
  type=owner.get("type", ""), fullyQualifiedName=owner.get("fullyQualifiedName"))\<close>.
\<close>

definition create_owner_model :: "json \<Rightarrow> error + owner_model" where
  "create_owner_model owner =
     bindE (py_get owner ''id'' JNull) (\<lambda>oid.
     bindE (py_get owner ''name'' (JStr [])) (\<lambda>name.
     bindE (py_get owner ''type'' (JStr [])) (\<lambda>type.
     bindE (py_get owner ''fullyQualifiedName'' JNull) (\<lambda>fqn.
     bindE (as_str name) (\<lambda>name'.
     bindE (as_str type) (\<lambda>type'.
     Inr \<lparr>owner_id = oid, owner_name = name', owner_type = type',
          owner_fullyQualifiedName = fqn\<rparr>))))))"

definition create_owner_models :: "json \<Rightarrow> error + owner_model list" where
  "create_owner_models owners =
     bindE (py_iter owners) (\<lambda>items. mapM create_owner_model items)"

text \<open>\<^verbatim>\<open>[d.get("name", "") for d in v]\<close> (domains, dataProducts, followers).\<close>

definition names_of :: "json \<Rightarrow> error + json list" where
  "names_of v = bindE (py_iter v) (\<lambda>items. mapM (\<lambda>d. py_get d ''name'' (JStr [])) items)"

lemma size_map_of:
  "map_of kvs k = Some v \<Longrightarrow> size v < size (JDict kvs)"
  by (induction kvs) (auto split: if_splits)

lemma size_py_iter:
  "py_iter cs = Inr items \<Longrightarrow> x \<in> set items \<Longrightarrow> size x \<le> size cs"
  by (cases cs) (auto intro: le_SucI size_list_estimation')

lemma size_children:
  assumes "py_iter (dict_get kvs k (JList [])) = Inr items" and "x \<in> set items"
  shows "size x < size (JDict kvs)"
proof (cases "map_of kvs k")
  case None
  with assms show ?thesis by (simp add: dict_get_def)
next
  case (Some v)
  then have "size v < size (JDict kvs)" by (rule size_map_of)
  moreover have "size x \<le> size v" using assms Some by (simp add: dict_get_def size_py_iter)
  ultimately show ?thesis by linarith
qed

text \<open>
  \<^verbatim>\<open>_create_column_model\<close>. The first thing it does is \<^verbatim>\<open>column_data.get\<close>, which
  raises AttributeError unless \<open>column_data\<close> is a dictionary; on a dictionary every
  later \<^verbatim>\<open>column_data.get\<close> succeeds and is written \<open>dict_get\<close>. The keyword
  arguments are evaluated top to bottom, so the first one that raises decides the error;
  the constructor (and its validation of \<open>name\<close>) runs last.
\<close>

function (sequential) create_column_model :: "json \<Rightarrow> error + column_model" where
  "create_column_model (JDict kvs) =
     (let data_type_info = dict_get kvs ''dataType'' (JDict []) in
     bindE (if is_dict data_type_info then py_get data_type_info ''name'' JNull
            else Inr (dict_get kvs ''dataType'' JNull)) (\<lambda>dataType.
     bindE (if truthy (dict_get kvs ''dataTypeDisplay'' JNull)
            then Inr (dict_get kvs ''dataTypeDisplay'' JNull)
            else py_get data_type_info ''displayName'' JNull) (\<lambda>dataTypeDisplay.
     bindE (if is_dict (dict_get kvs ''constraint'' JNull)
            then py_get (dict_get kvs ''constraint'' (JDict [])) ''name'' JNull
            else Inr (dict_get kvs ''constraint'' JNull)) (\<lambda>constraint.
     bindE (create_tag_models (dict_get kvs ''tags'' (JList []))) (\<lambda>tags.
     bindE (if is_dict data_type_info then py_get data_type_info ''precision'' JNull
            else Inr JNull) (\<lambda>precision.
     bindE (if is_dict data_type_info then py_get data_type_info ''scale'' JNull
            else Inr JNull) (\<lambda>scale.
     bindE (if is_dict data_type_info then py_get data_type_info ''length'' JNull
            else Inr JNull) (\<lambda>maxLength.
     bindE (bindE (py_iter (dict_get kvs ''children'' (JList [])))
              (\<lambda>items. mapM create_column_model items)) (\<lambda>children.
     bindE (as_str (dict_get kvs ''name'' (JStr []))) (\<lambda>name.
     Inr (ColumnModel name dataType dataTypeDisplay
            (dict_get kvs ''description'' JNull)
            (dict_get kvs ''ordinalPosition'' JNull)
            constraint tags
            (dict_get kvs ''nullable'' JNull)
            (dict_get kvs ''defaultValue'' JNull)
            precision scale maxLength
            (dict_get kvs ''arrayDataType'' JNull)
            (dict_get kvs ''dataLength'' JNull)
            (dict_get kvs ''jsonSchema'' JNull)
            (dict_get kvs ''fullyQualifiedName'' JNull)
            children
            (dict_get kvs ''customMetrics'' JNull))))))))))))"
| "create_column_model _ = Inl AttributeError"
  by pat_completeness auto
termination
  apply (relation "measure size")
   apply simp
  apply (simp only: in_measure)
  apply (rule size_children, assumption+)
  done

declare create_column_model.simps(1) [simp del]

text \<open>\<^verbatim>\<open>_create_table_model\<close>; \<open>columns_list\<close> is built before the constructor call.\<close>

fun create_table_model :: "json \<Rightarrow> bool \<Rightarrow> bool \<Rightarrow> bool \<Rightarrow> error + table_model" where
  "create_table_model (JDict kvs) include_sample_data include_table_profiles include_lineage =
     bindE (bindE (py_iter (dict_get kvs ''columns'' (JList [])))
              (\<lambda>cols. mapM create_column_model cols)) (\<lambda>columns_list.
     bindE (create_owner_models (dict_get kvs ''owners'' (JList []))) (\<lambda>owners.
     bindE (create_tag_models (dict_get kvs ''tags'' (JList []))) (\<lambda>tags.
     bindE (py_len (dict_get kvs ''columns'' (JList []))) (\<lambda>column_count.
     bindE (if truthy (dict_get kvs ''tablePartition'' JNull)
            then py_get (dict_get kvs ''tablePartition'' (JDict [])) ''columns'' JNull
            else Inr JNull) (\<lambda>partitionKeys.
     bindE (if truthy (dict_get kvs ''location'' JNull)
            then py_get (dict_get kvs ''location'' (JDict [])) ''name'' JNull
            else Inr JNull) (\<lambda>location.
     bindE (names_of (dict_get kvs ''domains'' (JList []))) (\<lambda>domains.
     bindE (names_of (dict_get kvs ''dataProducts'' (JList []))) (\<lambda>dataProducts.
     bindE (if truthy (dict_get kvs ''testSuite'' JNull)
            then py_get (dict_get kvs ''testSuite'' (JDict [])) ''name'' JNull
            else Inr JNull) (\<lambda>testSuite.
     bindE (names_of (dict_get kvs ''followers'' (JList []))) (\<lambda>followers.
     bindE (as_str (dict_get kvs ''id'' (JStr []))) (\<lambda>tid.
     bindE (as_str (dict_get kvs ''name'' (JStr []))) (\<lambda>name.
     bindE (as_str (dict_get kvs ''fullyQualifiedName'' (JStr []))) (\<lambda>fqn.
     bindE (mapM as_str domains) (\<lambda>domains'.
     bindE (mapM as_str dataProducts) (\<lambda>dataProducts'.
     bindE (mapM as_str followers) (\<lambda>followers'.
     Inr \<lparr>tbl_id = tid, tbl_name = name, tbl_fullyQualifiedName = fqn,
          tbl_tableType = dict_get kvs ''tableType'' JNull,
          tbl_description = dict_get kvs ''description'' JNull,
          tbl_displayName = dict_get kvs ''displayName'' JNull,
          tbl_owners = owners, tbl_tags = tags,
          tbl_columns = columns_list, tbl_column_count = column_count,
          tbl_tableConstraints = dict_get kvs ''tableConstraints'' JNull,
          tbl_partitionKeys = partitionKeys,
          tbl_distributionKeys = dict_get kvs ''distributionKey'' JNull,
          tbl_sortKeys = dict_get kvs ''sortKey'' JNull,
          tbl_tableProfile =
            (if include_table_profiles then dict_get kvs ''tableProfile'' JNull else JNull),
          tbl_sampleData =
            (if include_sample_data then dict_get kvs ''sampleData'' JNull else JNull),
          tbl_usageSummary = dict_get kvs ''usageSummary'' JNull,
          tbl_lineage = (if include_lineage then dict_get kvs ''lineage'' JNull else JNull),
          tbl_schemaDefinition = dict_get kvs ''schemaDefinition'' JNull,
          tbl_location = location,
          tbl_locationPath = dict_get kvs ''locationPath'' JNull,
          tbl_fileFormat = dict_get kvs ''fileFormat'' JNull,
          tbl_retentionPeriod = dict_get kvs ''retentionPeriod'' JNull,
          tbl_sourceUrl = dict_get kvs ''sourceUrl'' JNull,
          tbl_domains = domains', tbl_dataProducts = dataProducts',
          tbl_lifeCycle = dict_get kvs ''lifeCycle'' JNull,
          tbl_certification = dict_get kvs ''certification'' JNull,
          tbl_votes = dict_get kvs ''votes'' JNull,
          tbl_testSuite = testSuite,
          tbl_queries = dict_get kvs ''queries'' JNull,
          tbl_customMetrics = dict_get kvs ''customMetrics'' JNull,
          tbl_sourceHash = dict_get kvs ''sourceHash'' JNull,
          tbl_processedLineage = dict_get kvs ''processedLineage'' JNull,
          tbl_joins = dict_get kvs ''joins'' JNull,
          tbl_followers = followers'\<rparr>))))))))))))))))"
| "create_table_model _ include_sample_data include_table_profiles include_lineage =
     Inl AttributeError"

text \<open>\<^verbatim>\<open>_create_service_model\<close>.\<close>

fun create_service_model :: "json \<Rightarrow> error + service_model" where
  "create_service_model (JDict kvs) =
     bindE (create_owner_models (dict_get kvs ''owners'' (JList []))) (\<lambda>owners.
     bindE (create_tag_models (dict_get kvs ''tags'' (JList []))) (\<lambda>tags.
     bindE (names_of (dict_get kvs ''domains'' (JList []))) (\<lambda>domains.
     bindE (names_of (dict_get kvs ''dataProducts'' (JList []))) (\<lambda>dataProducts.
     bindE (names_of (dict_get kvs ''followers'' (JList []))) (\<lambda>followers.
     bindE (as_str (dict_get kvs ''id'' (JStr []))) (\<lambda>sid.
     bindE (as_str (dict_get kvs ''name'' (JStr []))) (\<lambda>name.
     bindE (as_str (dict_get kvs ''serviceType'' (JStr []))) (\<lambda>serviceType.
     bindE (as_str (dict_get kvs ''fullyQualifiedName'' (JStr []))) (\<lambda>fqn.
     bindE (mapM as_str domains) (\<lambda>domains'.
     bindE (mapM as_str dataProducts) (\<lambda>dataProducts'.
     bindE (mapM as_str followers) (\<lambda>followers'.
     Inr \<lparr>svc_id = sid, svc_name = name, svc_serviceType = serviceType,
          svc_description = dict_get kvs ''description'' JNull,
          svc_displayName = dict_get kvs ''displayName'' JNull,
          svc_fullyQualifiedName = fqn,
          svc_owners = owners, svc_tags = tags,
          svc_connection = dict_get kvs ''connection'' JNull,
          svc_version = dict_get kvs ''version'' JNull,
          svc_ingestionSchedule = dict_get kvs ''ingestionSchedule'' JNull,
          svc_sourceUrl = dict_get kvs ''sourceUrl'' JNull,
          svc_domains = domains', svc_dataProducts = dataProducts',
          svc_lifeCycle = dict_get kvs ''lifeCycle'' JNull,
          svc_certification = dict_get kvs ''certification'' JNull,
          svc_votes = dict_get kvs ''votes'' JNull,
          svc_followers = followers',
          svc_sourceHash = dict_get kvs ''sourceHash'' JNull\<rparr>))))))))))))"
| "create_service_model _ = Inl AttributeError"


section \<open>The HTTP session\<close>

text \<open>
  The session is supplied by the caller. A request names the endpoint below the base URL
  (with the value interpolated into the path, if any) and carries its query parameters
  or its JSON body; the fixed timeout is not modelled. Within one operation the session
  is a function of the request: it answers with a response or raises.
\<close>

datatype endpoint =
    Service_by_name string
  | Database_services
  | Databases
  | Database_schemas
  | Tables
  | Table_by_id json

datatype request =
    GET endpoint "(string \<times> json) list"
  | POST endpoint json

type_synonym session = "request \<Rightarrow> error + response"

text \<open>\<^verbatim>\<open>Response.raise_for_status()\<close> raises HTTPError for a 4xx or 5xx status.\<close>

definition raise_for_status :: "response \<Rightarrow> error + unit" where
  "raise_for_status r =
     (if 400 \<le> status_code r \<and> status_code r < 600 then Inl (HTTPError (Some r))
      else Inr ())"

text \<open>\<^verbatim>\<open>Response.json()\<close> raises when the body is not JSON.\<close>

definition response_json :: "response \<Rightarrow> error + json" where
  "response_json r = (case body r of None \<Rightarrow> Inl JSONDecodeError | Some j \<Rightarrow> Inr j)"

text \<open>
  The truth value of \<^verbatim>\<open>http_error.response\<close>: \<^verbatim>\<open>None\<close> is false, and a
  \<^verbatim>\<open>requests.Response\<close> is true exactly when it is \<^verbatim>\<open>ok\<close>, that is when
  \<^verbatim>\<open>raise_for_status()\<close> would not raise.
\<close>

definition response_truthy :: "response option \<Rightarrow> bool" where
  "response_truthy ro =
     (case ro of None \<Rightarrow> False
      | Some r \<Rightarrow> (case raise_for_status r of Inl e \<Rightarrow> False | Inr u \<Rightarrow> True))"

section \<open>Detail Enricher\<close>

fun join :: "string \<Rightarrow> string list \<Rightarrow> string" where
  "join sep [] = []"
| "join sep [x] = x"
| "join sep (x # y # ys) = x @ sep @ join sep (y # ys)"

definition build_include_params :: "bool \<Rightarrow> bool \<Rightarrow> bool \<Rightarrow> string list" where
  "build_include_params include_sample_data include_table_profiles include_lineage =
     [''all'', ''joins'', ''tags'', ''owner'', ''followers'', ''extension'', ''domain'',
      ''dataProducts'', ''votes'', ''lifeCycle'', ''certification'', ''sourceHash'']
     @ (if include_sample_data then [''sampleData''] else [])
     @ (if include_table_profiles then [''tableProfile'', ''profile''] else [])
     @ (if include_lineage then [''lineage'', ''dataProducts'', ''upstream'', ''downstream'']
        else [])"

definition detail_request :: "json \<Rightarrow> bool \<Rightarrow> bool \<Rightarrow> bool \<Rightarrow> request" where
  "detail_request table_id include_sample_data include_table_profiles include_lineage =
     GET (Table_by_id table_id)
       [(''include'', JStr (join '',''
           (build_include_params include_sample_data include_table_profiles include_lineage))),
        (''fields'', JStr ''columns,tableConstraints,tablePartition,owners,tags,followers,usageSummary,profile,sampleData,joins,lineage,testSuite,dataModel,location,extension,domain,dataProducts,votes,lifeCycle,certification,sourceUrl,schemaDefinition,retentionPeriod,sourceHash,queries,customMetrics'')]"

text \<open>
  \<^verbatim>\<open>_fetch_detailed_table_metadata\<close>: the whole body is inside
  \<^verbatim>\<open>try ... except Exception\<close>, so every fault gives \<^verbatim>\<open>None\<close> (\<open>JNull\<close>).
\<close>

definition fetch_detailed_table_metadata ::
    "session \<Rightarrow> json \<Rightarrow> bool \<Rightarrow> bool \<Rightarrow> bool \<Rightarrow> json" where
  "fetch_detailed_table_metadata session table_id include_sample_data include_table_profiles
       include_lineage =
     (case session (detail_request table_id include_sample_data include_table_profiles
                      include_lineage) of
        Inl e \<Rightarrow> JNull
      | Inr detailed_response \<Rightarrow>
          if status_code detailed_response = 200
          then (case response_json detailed_response of Inl e \<Rightarrow> JNull | Inr j \<Rightarrow> j)
          else JNull)"

section \<open>Hierarchy Walker\<close>

text \<open>The body of the loop over the listed tables in \<^verbatim>\<open>_process_database_tables\<close>.\<close>

definition process_table ::
    "session \<Rightarrow> bool \<Rightarrow> bool \<Rightarrow> bool \<Rightarrow> json \<Rightarrow> error + table_model" where
  "process_table session include_sample_data include_table_profiles include_lineage table =
     bindE (py_get table ''id'' JNull) (\<lambda>table_id.
       let detailed_table =
         (if truthy table_id
          then (let detailed_metadata =
                      fetch_detailed_table_metadata session table_id include_sample_data
                        include_table_profiles include_lineage
                in if truthy detailed_metadata then detailed_metadata else table)
          else table)
       in create_table_model detailed_table include_sample_data include_table_profiles
            include_lineage)"

definition tables_request :: "json \<Rightarrow> request" where
  "tables_request fqn =
     GET Tables
       [(''databaseSchema'', fqn),
        (''include'', JStr ''all,tags,owners''),
        (''fields'', JStr ''columns,owners,tags,tableType,description,displayName,tableConstraints,tablePartition,usageSummary'')]"

definition process_database_tables ::
    "session \<Rightarrow> json \<Rightarrow> bool \<Rightarrow> bool \<Rightarrow> bool \<Rightarrow> error + (table_model list \<times> nat)" where
  "process_database_tables session schema_data include_sample_data include_table_profiles
       include_lineage =
     bindE (py_get schema_data ''fullyQualifiedName'' JNull) (\<lambda>fqn.
     bindE (session (tables_request fqn)) (\<lambda>tables_response.
       if status_code tables_response \<noteq> 200 then Inr ([], 0)
       else
         bindE (response_json tables_response) (\<lambda>tables_data.
         bindE (py_get tables_data ''data'' (JList [])) (\<lambda>tables.
         bindE (py_iter tables) (\<lambda>items.
         bindE (mapM (process_table session include_sample_data include_table_profiles
                        include_lineage) items) (\<lambda>tables_list.
         bindE (py_len tables) (\<lambda>n.
         Inr (tables_list, n))))))))"

text \<open>
  The body of the loop over the listed schemas in \<^verbatim>\<open>_process_database_schemas\<close>. A
  schema that is not a dictionary raises at \<^verbatim>\<open>schema_data.get\<close>, the first thing
  \<^verbatim>\<open>_process_database_tables\<close> does.
\<close>

fun process_schema ::
    "session \<Rightarrow> bool \<Rightarrow> bool \<Rightarrow> bool \<Rightarrow> json \<Rightarrow> error + schema_model" where
  "process_schema session include_sample_data include_table_profiles include_lineage
       (JDict kvs) =
     bindE (process_database_tables session (JDict kvs) include_sample_data
              include_table_profiles include_lineage) (\<lambda>(tables_list, table_count).
     bindE (create_owner_models (dict_get kvs ''owners'' (JList []))) (\<lambda>owners.
     bindE (create_tag_models (dict_get kvs ''tags'' (JList []))) (\<lambda>tags.
     bindE (as_str (dict_get kvs ''id'' (JStr []))) (\<lambda>sid.
     bindE (as_str (dict_get kvs ''name'' (JStr []))) (\<lambda>name.
     bindE (as_str (dict_get kvs ''fullyQualifiedName'' (JStr []))) (\<lambda>fqn.
     Inr \<lparr>sch_id = sid, sch_name = name, sch_fullyQualifiedName = fqn,
          sch_description = dict_get kvs ''description'' JNull,
          sch_tables = tables_list, sch_table_count = table_count,
          sch_owners = owners, sch_tags = tags,
          sch_retentionPeriod = dict_get kvs ''retentionPeriod'' JNull\<rparr>))))))"
| "process_schema session include_sample_data include_table_profiles include_lineage _ =
     Inl AttributeError"

definition schemas_request :: "json \<Rightarrow> request" where
  "schemas_request fqn =
     GET Database_schemas
       [(''database'', fqn),
        (''include'', JStr ''all,tags,owners''),
        (''fields'', JStr ''owners,tags,retentionPeriod'')]"

definition process_database_schemas ::
    "session \<Rightarrow> json \<Rightarrow> bool \<Rightarrow> bool \<Rightarrow> bool \<Rightarrow> error + schema_model list" where
  "process_database_schemas session database_data include_sample_data include_table_profiles
       include_lineage =
     bindE (py_get database_data ''fullyQualifiedName'' JNull) (\<lambda>fqn.
     bindE (session (schemas_request fqn)) (\<lambda>schemas_response.
       if status_code schemas_response \<noteq> 200 then Inr []
       else
         bindE (response_json schemas_response) (\<lambda>schemas_data.
         bindE (py_get schemas_data ''data'' (JList [])) (\<lambda>schemas.
         bindE (py_iter schemas) (\<lambda>items.
         mapM (process_schema session include_sample_data include_table_profiles
                 include_lineage) items)))))"

text \<open>
  The body of the loop over the listed databases in \<^verbatim>\<open>_process_databases\<close>: the
  database record, with the three amounts the loop adds to its running totals
  (\<^verbatim>\<open>len(schemas_list)\<close>, \<^verbatim>\<open>db_table_count\<close>, \<^verbatim>\<open>db_column_count\<close>).
\<close>

fun process_database ::
    "session \<Rightarrow> bool \<Rightarrow> bool \<Rightarrow> bool \<Rightarrow> json
       \<Rightarrow> error + (database_model \<times> nat \<times> nat \<times> nat)" where
  "process_database session include_sample_data include_table_profiles include_lineage
       (JDict kvs) =
     bindE (create_owner_models (dict_get kvs ''owners'' (JList []))) (\<lambda>db_owners.
     bindE (process_database_schemas session (JDict kvs) include_sample_data
              include_table_profiles include_lineage) (\<lambda>schemas_list.
       let db_table_count = sum_list (map sch_table_count schemas_list);
           db_column_count =
             sum_list (map (\<lambda>table. length (tbl_columns table))
                         (concat (map sch_tables schemas_list)))
       in
     bindE (create_tag_models (dict_get kvs ''tags'' (JList []))) (\<lambda>tags.
     bindE (if truthy (dict_get kvs ''location'' JNull)
            then py_get (dict_get kvs ''location'' (JDict [])) ''name'' JNull
            else Inr (dict_get kvs ''location'' JNull)) (\<lambda>location.
     bindE (names_of (dict_get kvs ''dataProducts'' (JList []))) (\<lambda>dataProducts.
     bindE (names_of (dict_get kvs ''domains'' (JList []))) (\<lambda>domains.
     bindE (names_of (dict_get kvs ''followers'' (JList []))) (\<lambda>followers.
     bindE (as_str (dict_get kvs ''id'' (JStr []))) (\<lambda>did.
     bindE (as_str (dict_get kvs ''name'' (JStr []))) (\<lambda>name.
     bindE (as_str (dict_get kvs ''fullyQualifiedName'' (JStr []))) (\<lambda>fqn.
     bindE (mapM as_str dataProducts) (\<lambda>dataProducts'.
     bindE (mapM as_str domains) (\<lambda>domains'.
     bindE (mapM as_str followers) (\<lambda>followers'.
     Inr (\<lparr>db_id = did, db_name = name, db_fullyQualifiedName = fqn,
           db_description = dict_get kvs ''description'' JNull,
           db_owners = db_owners, db_schemas = schemas_list,
           db_schema_count = length schemas_list, db_table_count = db_table_count,
           db_tags = tags, db_location = location,
           db_databaseVersion = dict_get kvs ''version'' JNull,
           db_dataProducts = dataProducts',
           db_usageSummary = dict_get kvs ''usageSummary'' JNull,
           db_retentionPeriod = dict_get kvs ''retentionPeriod'' JNull,
           db_sourceUrl = dict_get kvs ''sourceUrl'' JNull,
           db_domains = domains',
           db_votes = dict_get kvs ''votes'' JNull,
           db_lifeCycle = dict_get kvs ''lifeCycle'' JNull,
           db_certification = dict_get kvs ''certification'' JNull,
           db_followers = followers',
           db_sourceHash = dict_get kvs ''sourceHash'' JNull,
           db_default = dict_get kvs ''default'' JNull\<rparr>,
          length schemas_list, db_table_count, db_column_count))))))))))))))"
| "process_database session include_sample_data include_table_profiles include_lineage _ =
     Inl AttributeError"

text \<open>
  The loop of \<^verbatim>\<open>_process_databases\<close>, with its state: the list built so far and the
  running totals \<^verbatim>\<open>total_schemas\<close>, \<^verbatim>\<open>total_tables\<close>, \<^verbatim>\<open>total_columns\<close>
  (primed here).
\<close>

fun databases_loop ::
    "session \<Rightarrow> bool \<Rightarrow> bool \<Rightarrow> bool \<Rightarrow> json list
       \<Rightarrow> database_model list \<times> nat \<times> nat \<times> nat
       \<Rightarrow> error + (database_model list \<times> nat \<times> nat \<times> nat)" where
  "databases_loop session include_sample_data include_table_profiles include_lineage []
       state = Inr state"
| "databases_loop session include_sample_data include_table_profiles include_lineage
       (database # rest) (databases_list, total_schemas', total_tables', total_columns') =
     bindE (process_database session include_sample_data include_table_profiles
              include_lineage database)
       (\<lambda>(database_model, schema_count, db_table_count, db_column_count).
          databases_loop session include_sample_data include_table_profiles include_lineage
            rest
            (databases_list @ [database_model], total_schemas' + schema_count,
             total_tables' + db_table_count, total_columns' + db_column_count))"

definition databases_request :: "string \<Rightarrow> request" where
  "databases_request service_name =
     GET Databases
       [(''service'', JStr service_name),
        (''include'', JStr ''all,tags,owners,domain,dataProducts''),
        (''fields'', JStr ''owners,tags,location,version,usageSummary,retentionPeriod,sourceUrl,domains,dataProducts,votes,lifeCycle,certification,followers,sourceHash,default'')]"

definition process_databases ::
    "session \<Rightarrow> string \<Rightarrow> bool \<Rightarrow> bool \<Rightarrow> bool
       \<Rightarrow> error + (database_model list \<times> summary_stats)" where
  "process_databases session service_name include_sample_data include_table_profiles
       include_lineage =
     bindE (session (databases_request service_name)) (\<lambda>databases_response.
     bindE (raise_for_status databases_response) (\<lambda>u.
     bindE (response_json databases_response) (\<lambda>databases_data.
     bindE (py_get databases_data ''data'' (JList [])) (\<lambda>databases.
     bindE (py_len databases) (\<lambda>found.
     bindE (py_iter databases) (\<lambda>items.
     bindE (databases_loop session include_sample_data include_table_profiles
              include_lineage items ([], 0, 0, 0))
       (\<lambda>(databases_list, total_schemas', total_tables', total_columns').
     bindE (py_len databases) (\<lambda>total.
     Inr (databases_list,
          \<lparr>stats_total_databases = total, stats_total_schemas = total_schemas',
           stats_total_tables = total_tables',
           stats_total_columns = total_columns'\<rparr>)))))))))"


section \<open>Summary Aggregator\<close>

text \<open>\<^verbatim>\<open>str.lower()\<close> and \<^verbatim>\<open>sub in s\<close>, on ASCII text.\<close>

definition lower_char :: "char \<Rightarrow> char" where
  "lower_char c =
     (let n = (of_char c :: nat) in if 65 \<le> n \<and> n \<le> 90 then char_of (n + 32) else c)"

definition lower :: "string \<Rightarrow> string" where
  "lower s = map lower_char s"

fun contains :: "string \<Rightarrow> string \<Rightarrow> bool" where
  "contains sub [] = (sub = [])"
| "contains sub (c # cs) = (take (length sub) (c # cs) = sub \<or> contains sub cs)"

text \<open>
  \<^verbatim>\<open>table.tableType and 'view' in table.tableType.lower()\<close>: a false value ends the
  test; a true value that is not a string has no \<^verbatim>\<open>lower\<close>.
\<close>

fun is_view :: "json \<Rightarrow> error + bool" where
  "is_view (JStr s) = Inr (s \<noteq> [] \<and> contains ''view'' (lower s))"
| "is_view v = (if truthy v then Inl AttributeError else Inr False)"

text \<open>
  \<^verbatim>\<open>set.update(owner.name for owner in owners if owner.name)\<close> adds \<open>owner_names owners\<close>,
  and likewise for tags.
\<close>

definition owner_names :: "owner_model list \<Rightarrow> string set" where
  "owner_names owners = set (filter (\<lambda>n. n \<noteq> []) (map owner_name owners))"

definition tag_fqns :: "tag_model list \<Rightarrow> string set" where
  "tag_fqns tags = set (filter (\<lambda>n. n \<noteq> []) (map tagFQN tags))"

text \<open>The nested loops over databases, schemas, tables and columns, on the two sets.\<close>

definition collect_column :: "column_model \<Rightarrow> string set \<Rightarrow> string set" where
  "collect_column column all_tags = all_tags \<union> tag_fqns (col_tags column)"

definition collect_table ::
    "table_model \<Rightarrow> string set \<times> string set \<Rightarrow> string set \<times> string set" where
  "collect_table table = (\<lambda>(all_owners, all_tags).
     (all_owners \<union> owner_names (tbl_owners table),
      fold collect_column (tbl_columns table) (all_tags \<union> tag_fqns (tbl_tags table))))"

definition collect_schema ::
    "schema_model \<Rightarrow> string set \<times> string set \<Rightarrow> string set \<times> string set" where
  "collect_schema schema = (\<lambda>(all_owners, all_tags).
     fold collect_table (sch_tables schema)
       (all_owners \<union> owner_names (sch_owners schema),
        all_tags \<union> tag_fqns (sch_tags schema)))"

definition collect_database ::
    "database_model \<Rightarrow> string set \<times> string set \<Rightarrow> string set \<times> string set" where
  "collect_database db = (\<lambda>(all_owners, all_tags).
     fold collect_schema (db_schemas db)
       (all_owners \<union> owner_names (db_owners db),
        all_tags \<union> tag_fqns (db_tags db)))"

text \<open>
  \<^verbatim>\<open>_create_metadata_summary\<close>. \<open>now\<close> is \<^verbatim>\<open>datetime.utcnow().isoformat()\<close>.
\<close>

definition create_metadata_summary ::
    "service_model \<Rightarrow> database_model list \<Rightarrow> summary_stats \<Rightarrow> string
       \<Rightarrow> error + metadata_summary" where
  "create_metadata_summary service_model databases_list stats now =
     bindE (mapM (\<lambda>table. is_view (tbl_tableType table))
              (concat (map sch_tables (concat (map db_schemas databases_list)))))
       (\<lambda>views.
     let (all_owners, all_tags) =
           fold collect_database databases_list
             (owner_names (svc_owners service_model), tag_fqns (svc_tags service_model))
     in Inr \<lparr>total_databases = stats_total_databases stats,
             total_schemas = stats_total_schemas stats,
             total_tables = stats_total_tables stats,
             total_columns = stats_total_columns stats,
             total_views = length (filter (\<lambda>b. b) views),
             total_owners = card all_owners,
             total_tags = card all_tags,
             data_extraction_timestamp = now @ ''Z''\<rparr>)"

section \<open>Metadata extraction\<close>

definition service_request :: "string \<Rightarrow> request" where
  "service_request service_name =
     GET (Service_by_name service_name)
       [(''include'', JStr ''all,tags,owners,followers,domain,dataProducts''),
        (''fields'', JStr ''owners,tags,connection,version,ingestionSchedule,sourceUrl,domains,dataProducts,lifeCycle,certification,votes,followers,sourceHash'')]"

text \<open>
  \<^verbatim>\<open>_fetch_service_metadata\<close>: only \<^verbatim>\<open>requests.HTTPError\<close> is caught here; any other
  fault goes on to the caller.
\<close>

definition fetch_service_metadata :: "session \<Rightarrow> string \<Rightarrow> error + json" where
  "fetch_service_metadata session service_name =
     (case bindE (session (service_request service_name)) (\<lambda>service_response.
             bindE (raise_for_status service_response) (\<lambda>u.
               if status_code service_response \<noteq> 200
               then Inl (HTTPException 404 (Service_not_found service_name))
               else response_json service_response)) of
        Inl (HTTPError ro) \<Rightarrow>
          Inl (HTTPException 500 (Failed_to_fetch_service_metadata (HTTPError ro)))
      | res \<Rightarrow> res)"

text \<open>
  \<^verbatim>\<open>extract_database_metadata\<close>: an HTTPException is raised again as it is, every other
  fault becomes a 500 with the same message template.
\<close>

definition extract_database_metadata ::
    "session \<Rightarrow> string \<Rightarrow> string \<Rightarrow> bool \<Rightarrow> bool \<Rightarrow> bool
       \<Rightarrow> error + database_metadata_response" where
  "extract_database_metadata session now service_name include_sample_data
       include_table_profiles include_lineage =
     (case bindE (fetch_service_metadata session service_name) (\<lambda>service_data.
             bindE (py_get service_data ''id'' JNull) (\<lambda>logged_id.
             bindE (create_service_model service_data) (\<lambda>service_model.
             bindE (process_databases session service_name include_sample_data
                      include_table_profiles include_lineage)
               (\<lambda>(databases_list, stats).
             bindE (create_metadata_summary service_model databases_list stats now)
               (\<lambda>summary.
             Inr \<lparr>resp_service = service_model, resp_databases = databases_list,
                  resp_summary = summary\<rparr>))))) of
        Inl (HTTPException code d) \<Rightarrow> Inl (HTTPException code d)
      | Inl e \<Rightarrow> Inl (HTTPException 500 (Failed_to_extract_metadata e))
      | Inr r \<Rightarrow> Inr r)"

section \<open>Table listing\<close>

text \<open>The truth test of an \<^verbatim>\<open>Optional[str]\<close>: \<^verbatim>\<open>None\<close> and \<^verbatim>\<open>""\<close> are false.\<close>

definition str_truthy :: "string option \<Rightarrow> bool" where
  "str_truthy x = (case x of None \<Rightarrow> False | Some s \<Rightarrow> s \<noteq> [])"

definition table_filter_params ::
    "string \<Rightarrow> string option \<Rightarrow> string option \<Rightarrow> (string \<times> json) list" where
  "table_filter_params service_name database_name schema_name =
     (if str_truthy database_name \<and> str_truthy schema_name
      then [(''databaseSchema'',
             JStr (service_name @ ''.'' @ the database_name @ ''.'' @ the schema_name))]
      else if str_truthy database_name
      then [(''database'', JStr (service_name @ ''.'' @ the database_name))]
      else [(''service'', JStr service_name)])"

text \<open>
  The column record built inline by \<^verbatim>\<open>get_service_tables\<close>: seven fields are given,
  the others keep their defaults.
\<close>

fun listed_column_model :: "json \<Rightarrow> error + column_model" where
  "listed_column_model (JDict kvs) =
     bindE (create_tag_models (dict_get kvs ''tags'' (JList []))) (\<lambda>tags.
     bindE (as_str (dict_get kvs ''name'' (JStr []))) (\<lambda>name.
     Inr (ColumnModel name
            (dict_get kvs ''dataType'' JNull)
            (dict_get kvs ''dataTypeDisplay'' JNull)
            (dict_get kvs ''description'' JNull)
            (dict_get kvs ''ordinalPosition'' JNull)
            (dict_get kvs ''constraint'' JNull)
            tags
            JNull JNull JNull JNull JNull JNull JNull JNull JNull [] JNull)))"
| "listed_column_model _ = Inl AttributeError"

text \<open>The body of the loop over the listed tables in \<^verbatim>\<open>get_service_tables\<close>.\<close>

fun listed_table_model :: "bool \<Rightarrow> json \<Rightarrow> error + table_model" where
  "listed_table_model include_columns (JDict kvs) =
     bindE (if include_columns \<and> truthy (dict_get kvs ''columns'' JNull)
            then bindE (py_iter (dict_get kvs ''columns'' (JList [])))
                   (\<lambda>cols. mapM listed_column_model cols)
            else Inr []) (\<lambda>columns_list.
     bindE (create_owner_models (dict_get kvs ''owners'' (JList []))) (\<lambda>owners.
     bindE (create_tag_models (dict_get kvs ''tags'' (JList []))) (\<lambda>tags.
     bindE (py_len (dict_get kvs ''columns'' (JList []))) (\<lambda>column_count.
     bindE (as_str (dict_get kvs ''id'' (JStr []))) (\<lambda>tid.
     bindE (as_str (dict_get kvs ''name'' (JStr []))) (\<lambda>name.
     bindE (as_str (dict_get kvs ''fullyQualifiedName'' (JStr []))) (\<lambda>fqn.
     Inr \<lparr>tbl_id = tid, tbl_name = name, tbl_fullyQualifiedName = fqn,
          tbl_tableType = dict_get kvs ''tableType'' JNull,
          tbl_description = dict_get kvs ''description'' JNull,
          tbl_displayName = dict_get kvs ''displayName'' JNull,
          tbl_owners = owners, tbl_tags = tags,
          tbl_columns = columns_list, tbl_column_count = column_count,
          tbl_tableConstraints = JNull, tbl_partitionKeys = JNull,
          tbl_distributionKeys = JNull, tbl_sortKeys = JNull,
          tbl_tableProfile = JNull, tbl_sampleData = JNull,
          tbl_usageSummary = JNull, tbl_lineage = JNull,
          tbl_schemaDefinition = JNull, tbl_location = JNull,
          tbl_locationPath = JNull, tbl_fileFormat = JNull,
          tbl_retentionPeriod = JNull, tbl_sourceUrl = JNull,
          tbl_domains = [], tbl_dataProducts = [],
          tbl_lifeCycle = JNull, tbl_certification = JNull,
          tbl_votes = JNull, tbl_testSuite = JNull,
          tbl_queries = JNull, tbl_customMetrics = JNull,
          tbl_sourceHash = JNull, tbl_processedLineage = JNull,
          tbl_joins = JNull, tbl_followers = []\<rparr>)))))))"
| "listed_table_model include_columns _ = Inl AttributeError"

text \<open>
  \<^verbatim>\<open>get_service_tables\<close>: every fault, \<^verbatim>\<open>requests.HTTPError\<close> or not, becomes a 500
  with the same message template.
\<close>

definition get_service_tables ::
    "session \<Rightarrow> string \<Rightarrow> string option \<Rightarrow> string option \<Rightarrow> bool
       \<Rightarrow> error + tables_response" where
  "get_service_tables session service_name database_name schema_name include_columns =
     (case bindE (session (GET Tables
                     (table_filter_params service_name database_name schema_name)))
             (\<lambda>tables_response.
           bindE (raise_for_status tables_response) (\<lambda>u.
           bindE (response_json tables_response) (\<lambda>tables_data.
           bindE (py_get tables_data ''data'' (JList [])) (\<lambda>tables.
           bindE (if truthy tables
                  then bindE (py_iter tables)
                         (\<lambda>items. mapM (listed_table_model include_columns) items)
                  else Inr []) (\<lambda>tables_list.
           Inr \<lparr>tr_service_name = service_name,
                tr_filter = \<lparr>filter_database_name = database_name,
                             filter_schema_name = schema_name,
                             filter_include_columns = include_columns\<rparr>,
                tr_tables = tables_list,
                tr_count = length tables_list\<rparr>))))) of
        Inl e \<Rightarrow> Inl (HTTPException 500 (Failed_to_list_tables e))
      | Inr r \<Rightarrow> Inr r)"

section \<open>Service creation\<close>

record owner_payload =
  op_name :: string
  op_type :: string

record database_service_payload =
  pl_name :: string
  pl_serviceType :: string
  pl_connection :: json
  pl_description :: "string option"
  pl_displayName :: "string option"
  pl_tags :: "string list option"
  pl_owners :: "owner_payload list option"

text \<open>The text of a MessageResponse: the template and the values interpolated into it.\<close>

datatype message =
    Already_exists_with_id string json
  | Created_successfully json json
  | Already_exists string

definition valid_service_types :: "string list" where
  "valid_service_types =
     [''MySQL'', ''PostgreSQL'', ''BigQuery'', ''Snowflake'', ''Redshift'',
      ''Oracle'', ''MSSQL'', ''MongoDB'', ''Cassandra'', ''Clickhouse'',
      ''Databricks'', ''Athena'', ''Hive'', ''Presto'', ''Trino'']"

definition list_truthy :: "'a list option \<Rightarrow> bool" where
  "list_truthy x = (case x of None \<Rightarrow> False | Some xs \<Rightarrow> xs \<noteq> [])"

definition build_service_request :: "database_service_payload \<Rightarrow> json" where
  "build_service_request payload =
     JDict ([(''name'', JStr (pl_name payload)),
             (''serviceType'', JStr (pl_serviceType payload)),
             (''connection'', JDict [(''config'', pl_connection payload)])]
            @ (if str_truthy (pl_description payload)
               then [(''description'', JStr (the (pl_description payload)))] else [])
            @ (if str_truthy (pl_displayName payload)
               then [(''displayName'', JStr (the (pl_displayName payload)))] else [])
            @ (if list_truthy (pl_tags payload)
               then [(''tags'', JList (map (\<lambda>tag. JDict [(''tagFQN'', JStr tag)])
                                        (the (pl_tags payload))))] else [])
            @ (if list_truthy (pl_owners payload)
               then [(''owners'', JList (map (\<lambda>owner. JDict [(''name'', JStr (op_name owner)),
                                                              (''type'', JStr (op_type owner))])
                                          (the (pl_owners payload))))] else []))"

text \<open>
  The pre-check of \<^verbatim>\<open>create_database_service\<close>: \<open>Inr (Some m)\<close> returns the message,
  \<open>Inr None\<close> goes on to the creation. Only \<^verbatim>\<open>requests.HTTPError\<close> is caught.
\<close>

definition check_existing :: "session \<Rightarrow> string \<Rightarrow> error + message option" where
  "check_existing session name =
     (case bindE (session (GET (Service_by_name name) [])) (\<lambda>existing_response.
             if status_code existing_response = 200
             then bindE (response_json existing_response) (\<lambda>existing_service.
                  bindE (py_get existing_service ''id'' JNull) (\<lambda>logged_id.
                  bindE (py_get existing_service ''id'' JNull) (\<lambda>service_id.
                  Inr (Some (Already_exists_with_id name service_id)))))
             else Inr None) of
        Inl (HTTPError ro) \<Rightarrow> Inr None
      | res \<Rightarrow> res)"

text \<open>
  The handler \<^verbatim>\<open>except requests.HTTPError as http_error\<close> around the creation call.
  \<open>error_detail\<close> is computed inside a \<^verbatim>\<open>try\<close> with a bare \<^verbatim>\<open>except\<close>.
\<close>

definition creation_error_detail :: "response option \<Rightarrow> detail" where
  "creation_error_detail ro =
     (if response_truthy ro
      then (case bindE (response_json (the ro)) (\<lambda>error_data.
                   case error_data of
                     JDict kvs \<Rightarrow>
                       (case map_of kvs ''message'' of
                          Some v \<Rightarrow> Inr (Creation_failed_value v)
                        | None \<Rightarrow>
                            (case map_of kvs ''detail'' of
                               Some v \<Rightarrow> Inr (Creation_failed_value v)
                             | None \<Rightarrow> Inr (Creation_failed_str_of_json error_data)))
                   | other \<Rightarrow> Inl AttributeError) of
              Inl e \<Rightarrow> Creation_failed_text (resp_text (the ro))
            | Inr d \<Rightarrow> d)
      else Creation_failed_str_of_error (HTTPError ro))"

definition handle_creation_error :: "string \<Rightarrow> response option \<Rightarrow> error + message" where
  "handle_creation_error name ro =
     (if response_truthy ro \<and> status_code (the ro) = 409
      then Inr (Already_exists name)
      else Inl (HTTPException 500 (creation_error_detail ro)))"

text \<open>
  \<^verbatim>\<open>create_database_service\<close>: an HTTPException is raised again as it is, any other
  fault that reaches the outer handler becomes a 500.
\<close>

definition create_database_service ::
    "session \<Rightarrow> database_service_payload \<Rightarrow> error + message" where
  "create_database_service session payload =
     (case (if pl_serviceType payload \<notin> set valid_service_types
            then Inl (HTTPException 400 Invalid_service_type)
            else
              bindE (check_existing session (pl_name payload)) (\<lambda>existing.
              case existing of
                Some m \<Rightarrow> Inr m
              | None \<Rightarrow>
                  (case bindE (session (POST Database_services
                                          (build_service_request payload))) (\<lambda>response.
                          bindE (raise_for_status response) (\<lambda>u.
                          bindE (response_json response) (\<lambda>created_service.
                          bindE (py_get created_service ''id'' JNull) (\<lambda>cid.
                          bindE (py_get created_service ''name'' JNull) (\<lambda>cname.
                          Inr (Created_successfully cname cid)))))) of
                     Inl (HTTPError ro) \<Rightarrow> handle_creation_error (pl_name payload) ro
                   | res \<Rightarrow> res))) of
        Inl (HTTPException code d) \<Rightarrow> Inl (HTTPException code d)
      | Inl e \<Rightarrow> Inl (HTTPException 500 Internal_server_error)
      | Inr m \<Rightarrow> Inr m)"

section \<open>Notions used to state the claims\<close>

subsection \<open>Owner names and tag identifiers of a walked tree\<close>

text \<open>
  Following the words of the spec: the owner names found on the service, its databases,
  their schemas and their tables; the tag identifiers found on all of those and on the
  columns of the tables.
\<close>

definition spec_owner_names :: "service_model \<Rightarrow> database_model list \<Rightarrow> string set" where
  "spec_owner_names svc dbs =
     owner_name ` set (svc_owners svc) \<union>
     (\<Union>db\<in>set dbs. owner_name ` set (db_owners db) \<union>
        (\<Union>sch\<in>set (db_schemas db). owner_name ` set (sch_owners sch) \<union>
           (\<Union>t\<in>set (sch_tables sch). owner_name ` set (tbl_owners t))))"

definition spec_tag_fqns :: "service_model \<Rightarrow> database_model list \<Rightarrow> string set" where
  "spec_tag_fqns svc dbs =
     tagFQN ` set (svc_tags svc) \<union>
     (\<Union>db\<in>set dbs. tagFQN ` set (db_tags db) \<union>
        (\<Union>sch\<in>set (db_schemas db). tagFQN ` set (sch_tags sch) \<union>
           (\<Union>t\<in>set (sch_tables sch). tagFQN ` set (tbl_tags t) \<union>
              (\<Union>c\<in>set (tbl_columns t). tagFQN ` set (col_tags c)))))"

text \<open>What one table, schema or database adds to the two sets of the aggregator.\<close>

definition table_tags :: "table_model \<Rightarrow> string set" where
  "table_tags t = tag_fqns (tbl_tags t) \<union> (\<Union>c\<in>set (tbl_columns t). tag_fqns (col_tags c))"

definition schema_owners :: "schema_model \<Rightarrow> string set" where
  "schema_owners sch =
     owner_names (sch_owners sch) \<union> (\<Union>t\<in>set (sch_tables sch). owner_names (tbl_owners t))"

definition schema_tags :: "schema_model \<Rightarrow> string set" where
  "schema_tags sch = tag_fqns (sch_tags sch) \<union> (\<Union>t\<in>set (sch_tables sch). table_tags t)"

definition database_owners :: "database_model \<Rightarrow> string set" where
  "database_owners db =
     owner_names (db_owners db) \<union> (\<Union>sch\<in>set (db_schemas db). schema_owners sch)"

definition database_tags :: "database_model \<Rightarrow> string set" where
  "database_tags db = tag_fqns (db_tags db) \<union> (\<Union>sch\<in>set (db_schemas db). schema_tags sch)"

text \<open>
  Replacing the children of every top-level column of a tree by an arbitrary list of
  columns, chosen by \<open>g\<close>.
\<close>

fun replace_children :: "(column_model \<Rightarrow> column_model list) \<Rightarrow> column_model \<Rightarrow> column_model" where
  "replace_children g
     (ColumnModel name dataType dataTypeDisplay description ordinalPosition constraint tags
        nullable defaultValue precision scale maxLength arrayDataType dataLength jsonSchema
        fullyQualifiedName children customMetrics) =
   ColumnModel name dataType dataTypeDisplay description ordinalPosition constraint tags
     nullable defaultValue precision scale maxLength arrayDataType dataLength jsonSchema
     fullyQualifiedName
     (g (ColumnModel name dataType dataTypeDisplay description ordinalPosition constraint tags
           nullable defaultValue precision scale maxLength arrayDataType dataLength jsonSchema
           fullyQualifiedName children customMetrics))
     customMetrics"

definition replace_children_table ::
    "(column_model \<Rightarrow> column_model list) \<Rightarrow> table_model \<Rightarrow> table_model" where
  "replace_children_table g t = t\<lparr>tbl_columns := map (replace_children g) (tbl_columns t)\<rparr>"

definition replace_children_schema ::
    "(column_model \<Rightarrow> column_model list) \<Rightarrow> schema_model \<Rightarrow> schema_model" where
  "replace_children_schema g sch =
     sch\<lparr>sch_tables := map (replace_children_table g) (sch_tables sch)\<rparr>"

definition replace_children_database ::
    "(column_model \<Rightarrow> column_model list) \<Rightarrow> database_model \<Rightarrow> database_model" where
  "replace_children_database g db =
     db\<lparr>db_schemas := map (replace_children_schema g) (db_schemas db)\<rparr>"

subsection \<open>A failed enrichment, a failed listing\<close>

text \<open>
  The detail fetch for a table fails when the session raises or answers with a status
  other than 200.
\<close>

definition enrichment_fails :: "session \<Rightarrow> json \<Rightarrow> bool \<Rightarrow> bool \<Rightarrow> bool \<Rightarrow> bool" where
  "enrichment_fails session table_id include_sample_data include_table_profiles
       include_lineage =
     (case session (detail_request table_id include_sample_data include_table_profiles
                      include_lineage) of
        Inl e \<Rightarrow> True
      | Inr r \<Rightarrow> status_code r \<noteq> 200)"

text \<open>
  A detail request has failed when the session raises on it or answers it with a status
  other than 200. \<open>no_enrichment\<close> is the answer of a detail fetch that succeeds and
  carries nothing (a JSON null).
\<close>

definition no_enrichment :: "error + response" where
  "no_enrichment = Inr \<lparr>status_code = 200, body = Some JNull, resp_text = []\<rparr>"

definition failed_detail_fetch :: "session \<Rightarrow> request \<Rightarrow> bool" where
  "failed_detail_fetch session q \<longleftrightarrow>
     (case q of
        GET (Table_by_id table_id) ps \<Rightarrow> True
      | other \<Rightarrow> False) \<and>
     (case session q of Inl e \<Rightarrow> True | Inr r \<Rightarrow> status_code r \<noteq> 200)"

text \<open>
  A schema or table listing has failed when the session answers it with a status other
  than 200. \<open>empty_listing\<close> is the answer of a listing that succeeds with no entry.
\<close>

definition empty_listing :: "error + response" where
  "empty_listing =
     Inr \<lparr>status_code = 200, body = Some (JDict [(''data'', JList [])]), resp_text = []\<rparr>"

definition failed_listing :: "session \<Rightarrow> request \<Rightarrow> bool" where
  "failed_listing session q \<longleftrightarrow>
     (case q of
        GET Database_schemas ps \<Rightarrow> True
      | GET Tables ps \<Rightarrow> True
      | other \<Rightarrow> False) \<and>
     (case session q of Inl e \<Rightarrow> False | Inr r \<Rightarrow> status_code r \<noteq> 200)"

subsection \<open>Derived counts\<close>

text \<open>Each count field equals the length of the list it counts.\<close>

definition table_counts_ok :: "table_model \<Rightarrow> bool" where
  "table_counts_ok t \<longleftrightarrow> tbl_column_count t = length (tbl_columns t)"

definition schema_counts_ok :: "schema_model \<Rightarrow> bool" where
  "schema_counts_ok sch \<longleftrightarrow>
     sch_table_count sch = length (sch_tables sch) \<and> list_all table_counts_ok (sch_tables sch)"

definition database_counts_ok :: "database_model \<Rightarrow> bool" where
  "database_counts_ok db \<longleftrightarrow>
     db_schema_count db = length (db_schemas db) \<and>
     db_table_count db = sum_list (map (\<lambda>sch. length (sch_tables sch)) (db_schemas db)) \<and>
     list_all schema_counts_ok (db_schemas db)"

definition summary_counts_ok :: "metadata_summary \<Rightarrow> database_model list \<Rightarrow> bool" where
  "summary_counts_ok summary dbs \<longleftrightarrow>
     total_databases summary = length dbs \<and>
     total_schemas summary = sum_list (map (\<lambda>db. length (db_schemas db)) dbs) \<and>
     total_tables summary =
       length (concat (map sch_tables (concat (map db_schemas dbs)))) \<and>
     total_columns summary =
       sum_list (map (\<lambda>t. length (tbl_columns t))
                   (concat (map sch_tables (concat (map db_schemas dbs)))))"

definition all_tables :: "database_model list \<Rightarrow> table_model list" where
  "all_tables dbs = concat (map sch_tables (concat (map db_schemas dbs)))"

subsection \<open>Example data\<close>

text \<open>
  A catalog with one service, two databases, two schemas and one table. The schema
  listing of \<open>db2\<close> and the table listing of \<open>s2\<close> fail, and so does every detail
  fetch. The table has one column with a nested child column.
\<close>

definition ok_response :: "json \<Rightarrow> error + response" where
  "ok_response j = Inr \<lparr>status_code = 200, body = Some j, resp_text = []\<rparr>"

definition status_response :: "nat \<Rightarrow> error + response" where
  "status_response n = Inr \<lparr>status_code = n, body = None, resp_text = []\<rparr>"

definition demo_column :: json where
  "demo_column =
     JDict [(''name'', JStr ''total''), (''dataType'', JStr ''STRUCT''),
            (''dataTypeDisplay'', JStr ''struct''),
            (''tags'', JList [JDict [(''tagFQN'', JStr ''PII.Sensitive'')]]),
            (''children'',
               JList [JDict [(''name'', JStr ''amount''),
                             (''dataType'', JDict [(''name'', JStr ''DECIMAL''),
                                                   (''precision'', JInt 10),
                                                   (''scale'', JInt 2)]),
                             (''constraint'', JDict [(''name'', JStr ''NOT_NULL'')]),
                             (''tags'', JList [JDict [(''tagFQN'', JStr ''Nested.Only'')]])]])]"

definition demo_table :: json where
  "demo_table =
     JDict [(''id'', JStr ''t1''), (''name'', JStr ''orders''),
            (''tableType'', JStr ''MaterializedView''),
            (''owners'', JList [JDict [(''name'', JStr ''bob'')]]),
            (''columns'', JList [demo_column])]"

definition demo_session :: session where
  "demo_session req =
     (if req = service_request ''svc'' then
        ok_response (JDict [(''name'', JStr ''svc''),
                            (''owners'', JList [JDict [(''name'', JStr ''alice'')],
                                                JDict [(''id'', JStr ''u2'')]]),
                            (''tags'', JList [JDict [(''tagFQN'', JStr ''Tier.Gold'')]])])
      else if req = databases_request ''svc'' then
        ok_response (JDict [(''data'', JList
          [JDict [(''name'', JStr ''db1''), (''fullyQualifiedName'', JStr ''svc.db1''),
                  (''owners'', JList [JDict [(''name'', JStr ''alice'')]])],
           JDict [(''name'', JStr ''db2''), (''fullyQualifiedName'', JStr ''svc.db2'')]])])
      else if req = schemas_request (JStr ''svc.db1'') then
        ok_response (JDict [(''data'', JList
          [JDict [(''name'', JStr ''s1''), (''fullyQualifiedName'', JStr ''svc.db1.s1'')],
           JDict [(''name'', JStr ''s2''), (''fullyQualifiedName'', JStr ''svc.db1.s2'')]])])
      else if req = schemas_request (JStr ''svc.db2'') then status_response 503
      else if req = tables_request (JStr ''svc.db1.s1'') then
        ok_response (JDict [(''data'', JList [demo_table])])
      else if req = tables_request (JStr ''svc.db1.s2'') then status_response 500
      else status_response 404)"

text \<open>The service is found, every other call answers 503.\<close>

definition databases_down_session :: session where
  "databases_down_session req =
     (if req = service_request ''svc'' then ok_response (JDict [(''name'', JStr ''svc'')])
      else status_response 503)"

text \<open>Every call answers 404: the service does not exist.\<close>

definition not_found_session :: session where
  "not_found_session req = status_response 404"

text \<open>Table listings, by service and by schema.\<close>

definition listing_session :: session where
  "listing_session req =
     (if req = GET Tables [(''service'', JStr ''svc'')] then
        ok_response (JDict [(''data'', JList
          [JDict [(''id'', JStr ''t1''), (''name'', JStr ''orders''),
                  (''columns'', JList
                     [JDict [(''name'', JStr ''amount''),
                             (''dataType'', JDict [(''name'', JStr ''DECIMAL'')]),
                             (''constraint'', JDict [(''name'', JStr ''NOT_NULL'')])]])]])])
      else status_response 404)"

definition schema_tables_session :: session where
  "schema_tables_session req =
     (if req = GET Tables [(''databaseSchema'', JStr ''svc.db1.s1'')]
      then ok_response (JDict [(''data'', JList
             [JDict [(''id'', JStr ''t1''), (''name'', JStr ''orders'')]])])
      else status_response 404)"

text \<open>
  Two tables are listed; the detail fetch of the first succeeds, that of the second
  answers 500.
\<close>

definition enrich_session :: session where
  "enrich_session req =
     (if req = tables_request (JStr ''svc.db1.s1'') then
        ok_response (JDict [(''data'', JList
          [JDict [(''id'', JStr ''a''), (''name'', JStr ''customers'')],
           JDict [(''id'', JStr ''b''), (''name'', JStr ''orders'')]])])
      else if req = detail_request (JStr ''a'') False False False then
        ok_response (JDict [(''id'', JStr ''a''), (''name'', JStr ''customers''),
                            (''description'', JStr ''enriched'')])
      else status_response 500)"

text \<open>A session that raises on every call.\<close>

definition unreachable_session :: session where
  "unreachable_session req = Inl TransportError"

text \<open>
  The service is not found by the pre-check, and the creation call answers 409 Conflict.
\<close>

definition conflict_session :: session where
  "conflict_session req =
     (case req of
        GET e ps \<Rightarrow> status_response 404
      | POST e j \<Rightarrow>
          Inr \<lparr>status_code = 409,
               body = Some (JDict [(''code'', JInt 409),
                                   (''message'', JStr ''Entity already exists'')]),
               resp_text = []\<rparr>)"

definition demo_payload :: database_service_payload where
  "demo_payload =
     \<lparr>pl_name = ''warehouse'', pl_serviceType = ''MySQL'', pl_connection = JDict [],
      pl_description = None, pl_displayName = None, pl_tags = None, pl_owners = None\<rparr>"

text \<open>The records that the walk of \<open>demo_session\<close> produces.\<close>

definition named_owner :: "string \<Rightarrow> owner_model" where
  "named_owner n =
     \<lparr>owner_id = JNull, owner_name = n, owner_type = [], owner_fullyQualifiedName = JNull\<rparr>"

definition named_tag :: "string \<Rightarrow> tag_model" where
  "named_tag fqn = \<lparr>tagFQN = fqn, tag_description = JNull, tag_source = JNull\<rparr>"

definition blank_table :: table_model where
  "blank_table =
     \<lparr>tbl_id = [], tbl_name = [], tbl_fullyQualifiedName = [],
      tbl_tableType = JNull, tbl_description = JNull, tbl_displayName = JNull,
      tbl_owners = [], tbl_tags = [], tbl_columns = [], tbl_column_count = 0,
      tbl_tableConstraints = JNull, tbl_partitionKeys = JNull,
      tbl_distributionKeys = JNull, tbl_sortKeys = JNull,
      tbl_tableProfile = JNull, tbl_sampleData = JNull,
      tbl_usageSummary = JNull, tbl_lineage = JNull,
      tbl_schemaDefinition = JNull, tbl_location = JNull,
      tbl_locationPath = JNull, tbl_fileFormat = JNull,
      tbl_retentionPeriod = JNull, tbl_sourceUrl = JNull,
      tbl_domains = [], tbl_dataProducts = [],
      tbl_lifeCycle = JNull, tbl_certification = JNull,
      tbl_votes = JNull, tbl_testSuite = JNull,
      tbl_queries = JNull, tbl_customMetrics = JNull,
      tbl_sourceHash = JNull, tbl_processedLineage = JNull,
      tbl_joins = JNull, tbl_followers = []\<rparr>"

definition blank_schema :: schema_model where
  "blank_schema =
     \<lparr>sch_id = [], sch_name = [], sch_fullyQualifiedName = [], sch_description = JNull,
      sch_tables = [], sch_table_count = 0, sch_owners = [], sch_tags = [],
      sch_retentionPeriod = JNull\<rparr>"

definition blank_database :: database_model where
  "blank_database =
     \<lparr>db_id = [], db_name = [], db_fullyQualifiedName = [], db_description = JNull,
      db_owners = [], db_schemas = [], db_schema_count = 0, db_table_count = 0,
      db_tags = [], db_location = JNull, db_databaseVersion = JNull,
      db_dataProducts = [], db_usageSummary = JNull, db_retentionPeriod = JNull,
      db_sourceUrl = JNull, db_domains = [], db_votes = JNull, db_lifeCycle = JNull,
      db_certification = JNull, db_followers = [], db_sourceHash = JNull,
      db_default = JNull\<rparr>"

definition blank_service :: service_model where
  "blank_service =
     \<lparr>svc_id = [], svc_name = [], svc_serviceType = [], svc_description = JNull,
      svc_displayName = JNull, svc_fullyQualifiedName = [], svc_owners = [], svc_tags = [],
      svc_connection = JNull, svc_version = JNull, svc_ingestionSchedule = JNull,
      svc_sourceUrl = JNull, svc_domains = [], svc_dataProducts = [],
      svc_lifeCycle = JNull, svc_certification = JNull, svc_votes = JNull,
      svc_followers = [], svc_sourceHash = JNull\<rparr>"

definition demo_child_model :: column_model where
  "demo_child_model =
     ColumnModel ''amount'' (JStr ''DECIMAL'') JNull JNull JNull (JStr ''NOT_NULL'')
       [named_tag ''Nested.Only''] JNull JNull (JInt 10) (JInt 2) JNull JNull JNull JNull
       JNull [] JNull"

definition demo_column_model :: column_model where
  "demo_column_model =
     ColumnModel ''total'' (JStr ''STRUCT'') (JStr ''struct'') JNull JNull JNull
       [named_tag ''PII.Sensitive''] JNull JNull JNull JNull JNull JNull JNull JNull JNull
       [demo_child_model] JNull"

definition demo_table_model :: table_model where
  "demo_table_model =
     blank_table\<lparr>tbl_id := ''t1'', tbl_name := ''orders'',
                 tbl_tableType := JStr ''MaterializedView'',
                 tbl_owners := [named_owner ''bob''],
                 tbl_columns := [demo_column_model], tbl_column_count := 1\<rparr>"

definition demo_databases :: "database_model list" where
  "demo_databases =
     [blank_database\<lparr>db_name := ''db1'', db_fullyQualifiedName := ''svc.db1'',
         db_owners := [named_owner ''alice''],
         db_schemas :=
           [blank_schema\<lparr>sch_name := ''s1'', sch_fullyQualifiedName := ''svc.db1.s1'',
                          sch_tables := [demo_table_model], sch_table_count := 1\<rparr>,
            blank_schema\<lparr>sch_name := ''s2'', sch_fullyQualifiedName := ''svc.db1.s2''\<rparr>],
         db_schema_count := 2, db_table_count := 1\<rparr>,
      blank_database\<lparr>db_name := ''db2'', db_fullyQualifiedName := ''svc.db2''\<rparr>]"

definition demo_service_model :: service_model where
  "demo_service_model =
     blank_service\<lparr>svc_name := ''svc'',
        svc_owners := [named_owner ''alice'', (named_owner [])\<lparr>owner_id := JStr ''u2''\<rparr>],
        svc_tags := [named_tag ''Tier.Gold'']\<rparr>"

definition demo_stats :: summary_stats where
  "demo_stats =
     \<lparr>stats_total_databases = 2, stats_total_schemas = 2, stats_total_tables = 1,
      stats_total_columns = 1\<rparr>"

definition demo_summary :: metadata_summary where
  "demo_summary =
     \<lparr>total_databases = 2, total_schemas = 2, total_tables = 1, total_columns = 1,
      total_views = 1, total_owners = 2, total_tags = 2,
      data_extraction_timestamp = ''2024-01-01T00:00:00Z''\<rparr>"

section \<open>Facts about the embedding\<close>

subsection \<open>Results and lists\<close>

lemma bindE_Inr [simp]: "bindE (Inr x) f = f x"
  by (simp add: bindE_def)

lemma bindE_Inl [simp]: "bindE (Inl e) f = Inl e"
  by (simp add: bindE_def)

lemma bindE_eq_Inr: "bindE m f = Inr y \<longleftrightarrow> (\<exists>x. m = Inr x \<and> f x = Inr y)"
  by (cases m) simp_all

lemma bindE_InrE:
  assumes "bindE m f = Inr y"
  obtains x where "m = Inr x" and "f x = Inr y"
  using assms by (auto simp: bindE_eq_Inr)

lemma mapM_length: "mapM f xs = Inr ys \<Longrightarrow> length ys = length xs"
  by (induction xs arbitrary: ys) (auto simp: bindE_eq_Inr)

lemma mapM_list_all:
  assumes "\<And>x y. f x = Inr y \<Longrightarrow> P y" and "mapM f xs = Inr ys"
  shows "list_all P ys"
  using assms(2) by (induction xs arbitrary: ys) (auto simp: bindE_eq_Inr assms(1))

lemma mapM_map: "mapM f (map h xs) = mapM (\<lambda>x. f (h x)) xs"
  by (induction xs) simp_all

lemma py_iter_len: "py_iter v = Inr items \<Longrightarrow> py_len v = Inr (length items)"
  by (cases v) auto

lemma falsy_len: "\<not> truthy v \<Longrightarrow> py_len v = Inr n \<Longrightarrow> n = 0"
  by (cases v) auto

subsection \<open>Column normalization\<close>

lemma column_resolution:
  assumes "create_column_model (JDict kvs) = Inr c"
  shows "(map_of kvs ''dataType'' = Some (JDict d) \<longrightarrow>
            col_dataType c = dict_get d ''name'' JNull \<and>
            col_precision c = dict_get d ''precision'' JNull \<and>
            col_scale c = dict_get d ''scale'' JNull \<and>
            col_maxLength c = dict_get d ''length'' JNull)"
    and "(map_of kvs ''dataType'' = Some (JStr s) \<longrightarrow>
            col_dataType c = JStr s \<and> col_precision c = JNull \<and>
            col_scale c = JNull \<and> col_maxLength c = JNull)"
    and "(map_of kvs ''constraint'' = Some (JDict d') \<longrightarrow>
            col_constraint c = dict_get d' ''name'' JNull)"
    and "(map_of kvs ''constraint'' = Some (JStr s') \<longrightarrow> col_constraint c = JStr s')"
  using assms
  by (auto simp: create_column_model.simps(1) Let_def bindE_eq_Inr dict_get_def split: if_splits)

lemma listed_column_passthrough:
  assumes "listed_column_model (JDict kvs) = Inr c"
  shows "col_dataType c = dict_get kvs ''dataType'' JNull"
    and "col_constraint c = dict_get kvs ''constraint'' JNull"
    and "col_precision c = JNull" and "col_scale c = JNull" and "col_maxLength c = JNull"
  using assms by (auto simp: bindE_eq_Inr)

subsection \<open>The sets of the aggregator\<close>

lemma owner_names_eq: "owner_names os = owner_name ` set os - {[]}"
  by (auto simp: owner_names_def)

lemma tag_fqns_eq: "tag_fqns ts = tagFQN ` set ts - {[]}"
  by (auto simp: tag_fqns_def)

lemma fold_union:
  "fold (\<lambda>x T. T \<union> g x) xs T = T \<union> (\<Union>x\<in>set xs. g x)"
  by (induction xs arbitrary: T) auto

lemma fold_union_pair:
  "fold (\<lambda>x (S, T). (S \<union> f x, T \<union> g x)) xs (S, T) =
     (S \<union> (\<Union>x\<in>set xs. f x), T \<union> (\<Union>x\<in>set xs. g x))"
  by (induction xs arbitrary: S T) auto

lemma collect_column_eq: "collect_column = (\<lambda>c T. T \<union> tag_fqns (col_tags c))"
  by (rule ext)+ (simp add: collect_column_def)

lemma collect_table_eq:
  "collect_table = (\<lambda>t (S, T). (S \<union> owner_names (tbl_owners t), T \<union> table_tags t))"
  by (rule ext)+
     (simp add: collect_table_def collect_column_eq fold_union table_tags_def Un_assoc
           split: prod.splits)

lemma collect_schema_eq:
  "collect_schema = (\<lambda>sch (S, T). (S \<union> schema_owners sch, T \<union> schema_tags sch))"
  by (rule ext)+
     (simp add: collect_schema_def collect_table_eq fold_union_pair schema_owners_def
           schema_tags_def Un_assoc split: prod.splits)

lemma collect_database_eq:
  "collect_database = (\<lambda>db (S, T). (S \<union> database_owners db, T \<union> database_tags db))"
  by (rule ext)+
     (simp add: collect_database_def collect_schema_eq fold_union_pair database_owners_def
           database_tags_def Un_assoc split: prod.splits)

lemma fold_collect_database:
  "fold collect_database dbs (S, T) =
     (S \<union> (\<Union>db\<in>set dbs. database_owners db), T \<union> (\<Union>db\<in>set dbs. database_tags db))"
  by (simp add: collect_database_eq fold_union_pair)

lemma UN_Diff_dist: "(\<Union>x\<in>A. f x) - C = (\<Union>x\<in>A. f x - C)"
  by blast

lemma schema_owners_eq:
  "schema_owners sch =
     (owner_name ` set (sch_owners sch) \<union>
      (\<Union>t\<in>set (sch_tables sch). owner_name ` set (tbl_owners t))) - {[]}"
  by (simp only: schema_owners_def owner_names_eq UN_Diff_dist Un_Diff)

lemma database_owners_eq:
  "database_owners db =
     (owner_name ` set (db_owners db) \<union>
        (\<Union>sch\<in>set (db_schemas db). owner_name ` set (sch_owners sch) \<union>
           (\<Union>t\<in>set (sch_tables sch). owner_name ` set (tbl_owners t)))) - {[]}"
  by (simp only: database_owners_def schema_owners_eq owner_names_eq UN_Diff_dist Un_Diff)

lemma spec_owner_names_eq:
  "owner_names (svc_owners svc) \<union> (\<Union>db\<in>set dbs. database_owners db) =
     spec_owner_names svc dbs - {[]}"
  by (simp only: spec_owner_names_def database_owners_eq owner_names_eq UN_Diff_dist Un_Diff)

lemma table_tags_eq:
  "table_tags t =
     (tagFQN ` set (tbl_tags t) \<union> (\<Union>c\<in>set (tbl_columns t). tagFQN ` set (col_tags c))) - {[]}"
  by (simp only: table_tags_def tag_fqns_eq UN_Diff_dist Un_Diff)

lemma schema_tags_eq:
  "schema_tags sch =
     (tagFQN ` set (sch_tags sch) \<union>
        (\<Union>t\<in>set (sch_tables sch). tagFQN ` set (tbl_tags t) \<union>
           (\<Union>c\<in>set (tbl_columns t). tagFQN ` set (col_tags c)))) - {[]}"
  by (simp only: schema_tags_def table_tags_eq tag_fqns_eq UN_Diff_dist Un_Diff)

lemma database_tags_eq:
  "database_tags db =
     (tagFQN ` set (db_tags db) \<union>
        (\<Union>sch\<in>set (db_schemas db). tagFQN ` set (sch_tags sch) \<union>
           (\<Union>t\<in>set (sch_tables sch). tagFQN ` set (tbl_tags t) \<union>
              (\<Union>c\<in>set (tbl_columns t). tagFQN ` set (col_tags c))))) - {[]}"
  by (simp only: database_tags_def schema_tags_eq tag_fqns_eq UN_Diff_dist Un_Diff)

lemma spec_tag_fqns_eq:
  "tag_fqns (svc_tags svc) \<union> (\<Union>db\<in>set dbs. database_tags db) =
     spec_tag_fqns svc dbs - {[]}"
  by (simp only: spec_tag_fqns_def database_tags_eq tag_fqns_eq UN_Diff_dist Un_Diff)

lemma collected_sets:
  "fold collect_database dbs (owner_names (svc_owners svc), tag_fqns (svc_tags svc)) =
     (spec_owner_names svc dbs - {[]}, spec_tag_fqns svc dbs - {[]})"
  by (simp only: fold_collect_database spec_owner_names_eq spec_tag_fqns_eq)

lemma col_tags_replace_children [simp]: "col_tags (replace_children g c) = col_tags c"
  by (cases c) simp

lemma table_tags_replace [simp]: "table_tags (replace_children_table g t) = table_tags t"
  by (simp add: table_tags_def replace_children_table_def)

lemma schema_tags_replace [simp]: "schema_tags (replace_children_schema g sch) = schema_tags sch"
  by (simp add: schema_tags_def replace_children_schema_def)

lemma schema_owners_replace [simp]:
  "schema_owners (replace_children_schema g sch) = schema_owners sch"
  by (simp add: schema_owners_def replace_children_schema_def replace_children_table_def)

lemma database_tags_replace [simp]:
  "database_tags (replace_children_database g db) = database_tags db"
  by (simp add: database_tags_def replace_children_database_def)

lemma database_owners_replace [simp]:
  "database_owners (replace_children_database g db) = database_owners db"
  by (simp add: database_owners_def replace_children_database_def)

lemma tables_replace:
  "concat (map sch_tables (concat (map db_schemas (map (replace_children_database g) dbs)))) =
     map (replace_children_table g) (concat (map sch_tables (concat (map db_schemas dbs))))"
  by (simp add: map_concat comp_def replace_children_database_def replace_children_schema_def)

subsection \<open>Enrichment\<close>

lemma fetch_detailed_fails:
  "enrichment_fails session tid s p l \<Longrightarrow> fetch_detailed_table_metadata session tid s p l = JNull"
  by (auto simp: enrichment_fails_def fetch_detailed_table_metadata_def split: sum.splits)

lemma process_table_fallback:
  assumes "\<And>tid. py_get table ''id'' JNull = Inr tid \<Longrightarrow> truthy tid
             \<Longrightarrow> enrichment_fails session tid s p l"
  shows "process_table session s p l table = create_table_model table s p l"
proof (cases table)
  case (JDict kvs)
  show ?thesis
  proof (cases "truthy (dict_get kvs ''id'' JNull)")
    case True
    with assms JDict have "enrichment_fails session (dict_get kvs ''id'' JNull) s p l" by simp
    then have "fetch_detailed_table_metadata session (dict_get kvs ''id'' JNull) s p l = JNull"
      by (rule fetch_detailed_fails)
    with JDict show ?thesis by (simp add: process_table_def Let_def)
  next
    case False
    with JDict show ?thesis by (simp add: process_table_def)
  qed
qed (simp_all add: process_table_def)

subsection \<open>Counts along the walk\<close>

lemma create_table_model_count:
  assumes "create_table_model td s p l = Inr t"
  shows "table_counts_ok t"
proof (cases td)
  case (JDict kvs)
  from assms[unfolded JDict create_table_model.simps]
  obtain cols columns_list n where
    i: "py_iter (dict_get kvs ''columns'' (JList [])) = Inr cols" and
    m: "mapM create_column_model cols = Inr columns_list" and
    n: "py_len (dict_get kvs ''columns'' (JList [])) = Inr n" and
    t: "tbl_columns t = columns_list" "tbl_column_count t = n"
    by (elim bindE_InrE) (clarsimp simp: bindE_eq_Inr)
  from i n have "n = length cols" by (simp add: py_iter_len)
  with m t show ?thesis by (simp add: table_counts_ok_def mapM_length)
qed (use assms in simp_all)

lemma process_table_count:
  "process_table session s p l table = Inr t \<Longrightarrow> table_counts_ok t"
  by (auto simp: process_table_def bindE_eq_Inr Let_def create_table_model_count
           split: if_splits)

lemma process_database_tables_count:
  assumes "process_database_tables session schema s p l = Inr (ts, n)"
  shows "n = length ts \<and> list_all table_counts_ok ts"
proof -
  from assms obtain fqn r where
    r: "session (tables_request fqn) = Inr r" and
    c: "(if status_code r \<noteq> 200 then Inr ([], 0)
         else bindE (response_json r) (\<lambda>tables_data.
              bindE (py_get tables_data ''data'' (JList [])) (\<lambda>tables.
              bindE (py_iter tables) (\<lambda>items.
              bindE (mapM (process_table session s p l) items) (\<lambda>tables_list.
              bindE (py_len tables) (\<lambda>n. Inr (tables_list, n))))))) = Inr (ts, n)"
    unfolding process_database_tables_def by (elim bindE_InrE)
  show ?thesis
  proof (cases "status_code r = 200")
    case False
    with c show ?thesis by simp
  next
    case True
    with c obtain tables items where
      i: "py_iter tables = Inr items" and
      m: "mapM (process_table session s p l) items = Inr ts" and
      n: "py_len tables = Inr n"
      by (auto simp: bindE_eq_Inr)
    from i n have "n = length items" by (simp add: py_iter_len)
    moreover from m have "length ts = length items" by (rule mapM_length)
    moreover have "list_all table_counts_ok ts"
      by (rule mapM_list_all [OF _ m]) (rule process_table_count)
    ultimately show ?thesis by simp
  qed
qed

lemma process_schema_count:
  assumes "process_schema session s p l schema = Inr sch"
  shows "schema_counts_ok sch"
proof (cases schema)
  case (JDict kvs)
  from assms[unfolded JDict process_schema.simps]
  obtain ts n where
    t: "process_database_tables session (JDict kvs) s p l = Inr (ts, n)" and
    s: "sch_tables sch = ts" "sch_table_count sch = n"
    by (elim bindE_InrE) (clarsimp simp: bindE_eq_Inr)
  from process_database_tables_count [OF t] s show ?thesis
    by (simp add: schema_counts_ok_def)
qed (use assms in simp_all)

lemma process_database_schemas_count:
  assumes "process_database_schemas session db s p l = Inr schs"
  shows "list_all schema_counts_ok schs"
proof -
  from assms obtain fqn r where
    c: "(if status_code r \<noteq> 200 then Inr []
         else bindE (response_json r) (\<lambda>schemas_data.
              bindE (py_get schemas_data ''data'' (JList [])) (\<lambda>schemas.
              bindE (py_iter schemas) (\<lambda>items.
              mapM (process_schema session s p l) items)))) = Inr schs"
    unfolding process_database_schemas_def by (elim bindE_InrE)
  show ?thesis
  proof (cases "status_code r = 200")
    case False
    with c show ?thesis by simp
  next
    case True
    with c obtain items where m: "mapM (process_schema session s p l) items = Inr schs"
      by (auto simp: bindE_eq_Inr)
    show ?thesis by (rule mapM_list_all [OF _ m]) (rule process_schema_count)
  qed
qed

lemma all_tables_simps [simp]:
  "all_tables [] = []"
  "all_tables (db # dbs) = concat (map sch_tables (db_schemas db)) @ all_tables dbs"
  "all_tables (xs @ ys) = all_tables xs @ all_tables ys"
  by (simp_all add: all_tables_def)

lemma sum_table_counts:
  "list_all schema_counts_ok schs \<Longrightarrow>
     sum_list (map sch_table_count schs) = sum_list (map (\<lambda>sch. length (sch_tables sch)) schs)"
  by (induction schs) (simp_all add: schema_counts_ok_def)

lemma process_database_count:
  assumes "process_database session s p l database = Inr (db, a, b, c)"
  shows "database_counts_ok db \<and> a = length (db_schemas db) \<and>
         b = length (all_tables [db]) \<and>
         c = sum_list (map (\<lambda>t. length (tbl_columns t)) (all_tables [db]))"
proof (cases database)
  case (JDict kvs)
  from assms[unfolded JDict process_database.simps]
  obtain schs where
    sc: "process_database_schemas session (JDict kvs) s p l = Inr schs" and
    d: "db_schemas db = schs" "db_schema_count db = length schs"
       "db_table_count db = sum_list (map sch_table_count schs)"
       "a = length schs" "b = sum_list (map sch_table_count schs)"
       "c = sum_list (map (\<lambda>table. length (tbl_columns table)) (concat (map sch_tables schs)))"
    by (elim bindE_InrE) (clarsimp simp: bindE_eq_Inr Let_def)
  have ok: "list_all schema_counts_ok schs"
    using sc by (rule process_database_schemas_count)
  have "sum_list (map sch_table_count schs) = length (concat (map sch_tables schs))"
    by (simp add: sum_table_counts [OF ok] length_concat comp_def)
  with d ok show ?thesis
    by (simp add: database_counts_ok_def sum_table_counts length_concat comp_def)
qed (use assms in simp_all)

lemma databases_loop_count:
  assumes "databases_loop session s p l items (dbs0, a0, b0, c0) = Inr (dbs, a, b, c)"
  shows "\<exists>new. dbs = dbs0 @ new \<and> length new = length items \<and>
           list_all database_counts_ok new \<and>
           a = a0 + sum_list (map (\<lambda>db. length (db_schemas db)) new) \<and>
           b = b0 + length (all_tables new) \<and>
           c = c0 + sum_list (map (\<lambda>t. length (tbl_columns t)) (all_tables new))"
  using assms
proof (induction items arbitrary: dbs0 a0 b0 c0)
  case Nil
  then show ?case by simp
next
  case (Cons database rest)
  from Cons.prems obtain db a1 b1 c1 where
    p: "process_database session s p l database = Inr (db, a1, b1, c1)" and
    r: "databases_loop session s p l rest (dbs0 @ [db], a0 + a1, b0 + b1, c0 + c1)
          = Inr (dbs, a, b, c)"
    by (auto simp: bindE_eq_Inr)
  from Cons.IH [OF r] obtain new where
    n: "dbs = (dbs0 @ [db]) @ new" "length new = length rest"
       "list_all database_counts_ok new"
       "a = a0 + a1 + sum_list (map (\<lambda>db. length (db_schemas db)) new)"
       "b = b0 + b1 + length (all_tables new)"
       "c = c0 + c1 + sum_list (map (\<lambda>t. length (tbl_columns t)) (all_tables new))"
    by blast
  from process_database_count [OF p] n
  have "dbs = dbs0 @ (db # new) \<and> length (db # new) = length (database # rest) \<and>
           list_all database_counts_ok (db # new) \<and>
           a = a0 + sum_list (map (\<lambda>db. length (db_schemas db)) (db # new)) \<and>
           b = b0 + length (all_tables (db # new)) \<and>
           c = c0 + sum_list (map (\<lambda>t. length (tbl_columns t)) (all_tables (db # new)))"
    by simp
  then show ?case by blast
qed

lemma process_databases_count:
  assumes "process_databases session name s p l = Inr (dbs, stats)"
  shows "list_all database_counts_ok dbs \<and>
         stats_total_databases stats = length dbs \<and>
         stats_total_schemas stats = sum_list (map (\<lambda>db. length (db_schemas db)) dbs) \<and>
         stats_total_tables stats = length (all_tables dbs) \<and>
         stats_total_columns stats =
           sum_list (map (\<lambda>t. length (tbl_columns t)) (all_tables dbs))"
proof -
  from assms obtain databases items a b c total where
    i: "py_iter databases = Inr items" and
    lp: "databases_loop session s p l items ([], 0, 0, 0) = Inr (dbs, a, b, c)" and
    n: "py_len databases = Inr total" and
    st: "stats = \<lparr>stats_total_databases = total, stats_total_schemas = a,
                  stats_total_tables = b, stats_total_columns = c\<rparr>"
    unfolding process_databases_def
    by (elim bindE_InrE) (auto simp: bindE_eq_Inr)
  from i n have "total = length items" by (simp add: py_iter_len)
  with databases_loop_count [OF lp] st show ?thesis by auto
qed

lemma create_metadata_summary_totals:
  assumes "create_metadata_summary svc dbs stats now = Inr m"
  shows "total_databases m = stats_total_databases stats \<and>
         total_schemas m = stats_total_schemas stats \<and>
         total_tables m = stats_total_tables stats \<and>
         total_columns m = stats_total_columns stats"
  using assms unfolding create_metadata_summary_def
  by (elim bindE_InrE) (clarsimp split: prod.splits)

lemma extract_counts:
  assumes "extract_database_metadata session now name s p l = Inr r"
  shows "list_all database_counts_ok (resp_databases r) \<and>
         summary_counts_ok (resp_summary r) (resp_databases r)"
proof -
  from assms have
    "bindE (fetch_service_metadata session name) (\<lambda>service_data.
       bindE (py_get service_data ''id'' JNull) (\<lambda>logged_id.
       bindE (create_service_model service_data) (\<lambda>service_model.
       bindE (process_databases session name s p l) (\<lambda>(databases_list, stats).
       bindE (create_metadata_summary service_model databases_list stats now) (\<lambda>summary.
       Inr \<lparr>resp_service = service_model, resp_databases = databases_list,
            resp_summary = summary\<rparr>))))) = Inr r"
    unfolding extract_database_metadata_def
    by (simp split: sum.splits error.splits)
  then obtain svc dbs stats m where
    pd: "process_databases session name s p l = Inr (dbs, stats)" and
    cs: "create_metadata_summary svc dbs stats now = Inr m" and
    r: "r = \<lparr>resp_service = svc, resp_databases = dbs, resp_summary = m\<rparr>"
    by (elim bindE_InrE) (auto simp: bindE_eq_Inr)
  from process_databases_count [OF pd] create_metadata_summary_totals [OF cs] r
  show ?thesis by (simp add: summary_counts_ok_def all_tables_def)
qed

lemma listed_table_model_count:
  assumes "listed_table_model True td = Inr t"
  shows "table_counts_ok t"
proof (cases td)
  case (JDict kvs)
  from assms[unfolded JDict listed_table_model.simps]
  obtain columns_list n where
    c: "(if True \<and> truthy (dict_get kvs ''columns'' JNull)
         then bindE (py_iter (dict_get kvs ''columns'' (JList [])))
                (\<lambda>cols. mapM listed_column_model cols)
         else Inr []) = Inr columns_list" and
    n: "py_len (dict_get kvs ''columns'' (JList [])) = Inr n" and
    t: "tbl_columns t = columns_list" "tbl_column_count t = n"
    by (elim bindE_InrE) (clarsimp simp: bindE_eq_Inr)
  show ?thesis
  proof (cases "truthy (dict_get kvs ''columns'' JNull)")
    case True
    with c obtain cols where i: "py_iter (dict_get kvs ''columns'' (JList [])) = Inr cols"
      and m: "mapM listed_column_model cols = Inr columns_list"
      by (auto simp: bindE_eq_Inr)
    from i n have "n = length cols" by (simp add: py_iter_len)
    with m t show ?thesis by (simp add: table_counts_ok_def mapM_length)
  next
    case False
    with c have e: "columns_list = []" by simp
    have "n = 0"
    proof (cases "map_of kvs ''columns''")
      case None
      with n show ?thesis by (simp add: dict_get_def)
    next
      case (Some v)
      with False n show ?thesis by (auto simp: dict_get_def dest: falsy_len)
    qed
    with e t show ?thesis by (simp add: table_counts_ok_def)
  qed
qed (use assms in simp_all)

lemma listed_table_model_no_columns:
  assumes "listed_table_model False (JDict kvs) = Inr t"
  shows "tbl_columns t = [] \<and>
         py_len (dict_get kvs ''columns'' (JList [])) = Inr (tbl_column_count t)"
  using assms unfolding listed_table_model.simps
  by (elim bindE_InrE) (clarsimp simp: bindE_eq_Inr)

lemma listed_table_model_no_columns':
  assumes "listed_table_model False td = Inr t"
  shows "tbl_columns t = []"
proof (cases td)
  case (JDict kvs)
  with assms have "listed_table_model False (JDict kvs) = Inr t" by (simp only:)
  then show ?thesis by (rule listed_table_model_no_columns [THEN conjunct1])
qed (use assms in simp_all)

lemma get_service_tables_Inr:
  assumes "get_service_tables session name dn scn ic = Inr r"
  shows "tr_count r = length (tr_tables r) \<and>
         tr_service_name r = name \<and>
         tr_filter r = \<lparr>filter_database_name = dn, filter_schema_name = scn,
                         filter_include_columns = ic\<rparr> \<and>
         (if ic then list_all table_counts_ok (tr_tables r)
          else list_all (\<lambda>t. tbl_columns t = []) (tr_tables r))"
proof -
  from assms have
    "bindE (session (GET Tables (table_filter_params name dn scn))) (\<lambda>tables_response.
     bindE (raise_for_status tables_response) (\<lambda>u.
     bindE (response_json tables_response) (\<lambda>tables_data.
     bindE (py_get tables_data ''data'' (JList [])) (\<lambda>tables.
     bindE (if truthy tables
            then bindE (py_iter tables) (\<lambda>items. mapM (listed_table_model ic) items)
            else Inr []) (\<lambda>tables_list.
     Inr \<lparr>tr_service_name = name,
          tr_filter = \<lparr>filter_database_name = dn, filter_schema_name = scn,
                       filter_include_columns = ic\<rparr>,
          tr_tables = tables_list,
          tr_count = length tables_list\<rparr>))))) = Inr r"
    unfolding get_service_tables_def by (simp split: sum.splits)
  then obtain tables tables_list where
    l: "(if truthy tables
         then bindE (py_iter tables) (\<lambda>items. mapM (listed_table_model ic) items)
         else Inr []) = Inr tables_list" and
    r: "r = \<lparr>tr_service_name = name,
             tr_filter = \<lparr>filter_database_name = dn, filter_schema_name = scn,
                          filter_include_columns = ic\<rparr>,
             tr_tables = tables_list,
             tr_count = length tables_list\<rparr>"
    by (elim bindE_InrE) auto
  have "if ic then list_all table_counts_ok tables_list
        else list_all (\<lambda>t. tbl_columns t = []) tables_list"
  proof (cases "truthy tables")
    case False
    with l show ?thesis by simp
  next
    case True
    with l obtain items where m: "mapM (listed_table_model ic) items = Inr tables_list"
      by (auto simp: bindE_eq_Inr)
    show ?thesis
    proof (cases ic)
      case True
      have "list_all table_counts_ok tables_list"
        by (rule mapM_list_all [OF _ m]) (simp add: True listed_table_model_count)
      with True show ?thesis by simp
    next
      case False
      have "list_all (\<lambda>t. tbl_columns t = []) tables_list"
        by (rule mapM_list_all [OF _ m]) (simp add: False listed_table_model_no_columns')
      with False show ?thesis by simp
    qed
  qed
  with r show ?thesis by simp
qed

lemma get_service_tables_request:
  assumes "session' (GET Tables (table_filter_params name dn scn))
             = session (GET Tables (table_filter_params name dn scn))"
  shows "get_service_tables session' name dn scn ic = get_service_tables session name dn scn ic"
  unfolding get_service_tables_def assms ..

subsection \<open>Failed listings\<close>

lemma failed_listing_cases:
  assumes "failed_listing session q"
  obtains ps r where "q = GET Database_schemas ps \<or> q = GET Tables ps"
    and "session q = Inr r" and "status_code r \<noteq> 200"
  using assms
  by (auto simp: failed_listing_def split: request.splits endpoint.splits sum.splits)

lemma tables_listing_fails:
  assumes "py_get schema ''fullyQualifiedName'' JNull = Inr fqn"
    and "session (tables_request fqn) = Inr r" and "status_code r \<noteq> 200"
  shows "process_database_tables session schema s p l = Inr ([], 0)"
  using assms by (simp add: process_database_tables_def)

lemma schemas_listing_fails:
  assumes "py_get db ''fullyQualifiedName'' JNull = Inr fqn"
    and "session (schemas_request fqn) = Inr r" and "status_code r \<noteq> 200"
  shows "process_database_schemas session db s p l = Inr []"
  using assms by (simp add: process_database_schemas_def)

lemma tables_listing_empty:
  assumes "py_get schema ''fullyQualifiedName'' JNull = Inr fqn"
    and "session (tables_request fqn) = empty_listing"
  shows "process_database_tables session schema s p l = Inr ([], 0)"
  using assms by (simp add: process_database_tables_def empty_listing_def response_json_def
      dict_get_def)

lemma schemas_listing_empty:
  assumes "py_get db ''fullyQualifiedName'' JNull = Inr fqn"
    and "session (schemas_request fqn) = empty_listing"
  shows "process_database_schemas session db s p l = Inr []"
  using assms by (simp add: process_database_schemas_def empty_listing_def response_json_def
      dict_get_def)

lemma process_schema_failed:
  assumes "process_schema session s p l schema = Inr sch"
    and "py_get schema ''fullyQualifiedName'' JNull = Inr fqn"
    and "session (tables_request fqn) = Inr r" and "status_code r \<noteq> 200"
  shows "sch_tables sch = [] \<and> sch_table_count sch = 0"
proof (cases schema)
  case (JDict kvs)
  have "process_database_tables session (JDict kvs) s p l = Inr ([], 0)"
    using assms(2-4) unfolding JDict by (rule tables_listing_fails)
  with assms(1) show ?thesis
    unfolding JDict process_schema.simps
    by (elim bindE_InrE) (clarsimp simp: bindE_eq_Inr)
qed (use assms in simp_all)

lemma process_database_failed:
  assumes "process_database session s p l database = Inr (db, a, b, c)"
    and "py_get database ''fullyQualifiedName'' JNull = Inr fqn"
    and "session (schemas_request fqn) = Inr r" and "status_code r \<noteq> 200"
  shows "db_schemas db = [] \<and> db_schema_count db = 0 \<and> db_table_count db = 0"
proof (cases database)
  case (JDict kvs)
  have "process_database_schemas session (JDict kvs) s p l = Inr []"
    using assms(2-4) unfolding JDict by (rule schemas_listing_fails)
  with assms(1) show ?thesis
    unfolding JDict process_database.simps
    by (elim bindE_InrE) (clarsimp simp: bindE_eq_Inr Let_def)
qed (use assms in simp_all)

lemma fetch_detailed_upd:
  assumes "failed_listing session q"
  shows "fetch_detailed_table_metadata (session(q := empty_listing)) =
         fetch_detailed_table_metadata session"
proof (intro ext)
  fix tid s p l
  from assms have "detail_request tid s p l \<noteq> q"
    by (auto simp: failed_listing_def detail_request_def split: request.splits endpoint.splits)
  then show "fetch_detailed_table_metadata (session(q := empty_listing)) tid s p l =
             fetch_detailed_table_metadata session tid s p l"
    by (simp add: fetch_detailed_table_metadata_def)
qed

lemma process_table_upd:
  assumes "failed_listing session q"
  shows "process_table (session(q := empty_listing)) = process_table session"
  unfolding process_table_def fetch_detailed_upd [OF assms] ..

lemma process_database_tables_upd:
  assumes f: "failed_listing session q"
  shows "process_database_tables (session(q := empty_listing)) =
         process_database_tables session"
proof (intro ext)
  fix schema s p l
  show "process_database_tables (session(q := empty_listing)) schema s p l =
        process_database_tables session schema s p l"
  proof (cases "py_get schema ''fullyQualifiedName'' JNull")
    case (Inl e)
    then show ?thesis by (simp add: process_database_tables_def)
  next
    case (Inr fqn)
    show ?thesis
    proof (cases "tables_request fqn = q")
      case True
      from f obtain r where r: "session q = Inr r" "status_code r \<noteq> 200"
        by (rule failed_listing_cases)
      have "process_database_tables session schema s p l = Inr ([], 0)"
        using Inr r True by (intro tables_listing_fails) auto
      moreover have "process_database_tables (session(q := empty_listing)) schema s p l
                       = Inr ([], 0)"
        using Inr True by (intro tables_listing_empty) auto
      ultimately show ?thesis by simp
    next
      case False
      then have "(session(q := empty_listing)) (tables_request fqn) = session (tables_request fqn)"
        by simp
      then show ?thesis
        unfolding process_database_tables_def process_table_upd [OF f] Inr
        by simp
    qed
  qed
qed

lemma process_schema_upd:
  assumes f: "failed_listing session q"
  shows "process_schema (session(q := empty_listing)) = process_schema session"
proof (intro ext)
  fix s p l schema
  show "process_schema (session(q := empty_listing)) s p l schema =
        process_schema session s p l schema"
    by (cases schema) (simp_all add: process_database_tables_upd [OF f])
qed

lemma process_database_schemas_upd:
  assumes f: "failed_listing session q"
  shows "process_database_schemas (session(q := empty_listing)) =
         process_database_schemas session"
proof (intro ext)
  fix db s p l
  show "process_database_schemas (session(q := empty_listing)) db s p l =
        process_database_schemas session db s p l"
  proof (cases "py_get db ''fullyQualifiedName'' JNull")
    case (Inl e)
    then show ?thesis by (simp add: process_database_schemas_def)
  next
    case (Inr fqn)
    show ?thesis
    proof (cases "schemas_request fqn = q")
      case True
      from f obtain r where r: "session q = Inr r" "status_code r \<noteq> 200"
        by (rule failed_listing_cases)
      have "process_database_schemas session db s p l = Inr []"
        using Inr r True by (intro schemas_listing_fails) auto
      moreover have "process_database_schemas (session(q := empty_listing)) db s p l = Inr []"
        using Inr True by (intro schemas_listing_empty) auto
      ultimately show ?thesis by simp
    next
      case False
      then have "(session(q := empty_listing)) (schemas_request fqn)
                   = session (schemas_request fqn)"
        by simp
      then show ?thesis
        unfolding process_database_schemas_def process_schema_upd [OF f] Inr
        by simp
    qed
  qed
qed

lemma process_database_upd:
  assumes f: "failed_listing session q"
  shows "process_database (session(q := empty_listing)) = process_database session"
proof (intro ext)
  fix s p l database
  show "process_database (session(q := empty_listing)) s p l database =
        process_database session s p l database"
    by (cases database) (simp_all add: process_database_schemas_upd [OF f])
qed

lemma databases_loop_upd:
  assumes f: "failed_listing session q"
  shows "databases_loop (session(q := empty_listing)) s p l items st =
         databases_loop session s p l items st"
proof (induction items arbitrary: st)
  case Nil
  show ?case by simp
next
  case (Cons database rest)
  obtain dbs a b c where st: "st = (dbs, a, b, c)" by (cases st) auto
  show ?case
    unfolding st databases_loop.simps process_database_upd [OF f]
    by (rule bindE_cong [OF refl]) (simp add: Cons.IH split: prod.splits)
qed

lemma process_databases_upd:
  assumes f: "failed_listing session q"
  shows "process_databases (session(q := empty_listing)) name s p l =
         process_databases session name s p l"
proof -
  from f have "databases_request name \<noteq> q"
    by (auto simp: failed_listing_def databases_request_def
             split: request.splits endpoint.splits)
  then have "(session(q := empty_listing)) (databases_request name)
               = session (databases_request name)"
    by simp
  then show ?thesis unfolding process_databases_def databases_loop_upd [OF f] by simp
qed

lemma fetch_service_metadata_upd:
  assumes f: "failed_listing session q"
  shows "fetch_service_metadata (session(q := empty_listing)) name =
         fetch_service_metadata session name"
proof -
  from f have "service_request name \<noteq> q"
    by (auto simp: failed_listing_def service_request_def
             split: request.splits endpoint.splits)
  then show ?thesis by (simp add: fetch_service_metadata_def)
qed

lemma extract_upd:
  assumes f: "failed_listing session q"
  shows "extract_database_metadata (session(q := empty_listing)) now name s p l =
         extract_database_metadata session now name s p l"
  unfolding extract_database_metadata_def fetch_service_metadata_upd [OF f]
    process_databases_upd [OF f] ..

lemma databases_listing_fatal:
  assumes "fetch_service_metadata session name = Inr service_data"
    and "create_service_model service_data = Inr service_model"
    and "session (databases_request name) = Inr r"
    and "400 \<le> status_code r" and "status_code r < 600"
  shows "extract_database_metadata session now name s p l =
           Inl (HTTPException 500 (Failed_to_extract_metadata (HTTPError (Some r))))"
proof -
  from assms(2) obtain kvs where "service_data = JDict kvs"
    by (cases service_data) simp_all
  moreover have "process_databases session name s p l = Inl (HTTPError (Some r))"
    using assms(3-5) by (simp add: process_databases_def raise_for_status_def)
  ultimately show ?thesis
    using assms(1,2) by (simp add: extract_database_metadata_def)
qed

subsection \<open>Failed detail fetches\<close>

lemma mapM_nth:
  "mapM f xs = Inr ys \<Longrightarrow> i < length xs \<Longrightarrow> f (xs ! i) = Inr (ys ! i)"
proof (induction xs arbitrary: ys i)
  case Nil
  then show ?case by simp
next
  case (Cons x xs)
  from Cons.prems(1) obtain y ys' where
    y: "f x = Inr y" and ys': "mapM f xs = Inr ys'" and e: "ys = y # ys'"
    by (auto simp: bindE_eq_Inr)
  show ?case
  proof (cases i)
    case 0
    with y e show ?thesis by simp
  next
    case (Suc j)
    with Cons.prems(2) have "j < length xs" by simp
    from Cons.IH [OF ys' this] Suc e show ?thesis by simp
  qed
qed

lemma listed_tables_basic:
  assumes fqn: "py_get schema ''fullyQualifiedName'' JNull = Inr fqn"
    and r: "session (tables_request fqn) = Inr r" and ok: "status_code r = 200"
    and td: "response_json r = Inr tables_data"
    and tb: "py_get tables_data ''data'' (JList []) = Inr tables"
    and it: "py_iter tables = Inr items"
    and res: "process_database_tables session schema s p l = Inr (ts, n)"
  shows "n = length items \<and> length ts = length items \<and>
         mapM (process_table session s p l) items = Inr ts"
proof -
  from res fqn r ok td tb it obtain n' where
    m: "mapM (process_table session s p l) items = Inr ts" and n: "py_len tables = Inr n'"
      and e: "n = n'"
    by (auto simp: process_database_tables_def bindE_eq_Inr)
  from it n have "n' = length items" by (simp add: py_iter_len)
  with m e show ?thesis by (simp add: mapM_length)
qed

lemma tables_all_basic:
  assumes fqn: "py_get schema ''fullyQualifiedName'' JNull = Inr fqn"
    and r: "session (tables_request fqn) = Inr r" and ok: "status_code r = 200"
    and td: "response_json r = Inr tables_data"
    and tb: "py_get tables_data ''data'' (JList []) = Inr tables"
    and it: "py_iter tables = Inr listed"
    and fails: "\<forall>table\<in>set listed. \<forall>tid. py_get table ''id'' JNull = Inr tid \<and> truthy tid
                 \<longrightarrow> enrichment_fails session tid s p l"
    and basic: "mapM (\<lambda>table. create_table_model table s p l) listed = Inr ts"
  shows "process_database_tables session schema s p l = Inr (ts, length listed)"
proof -
  have "mapM (process_table session s p l) listed
          = mapM (\<lambda>table. create_table_model table s p l) listed"
  proof (rule mapM_cong [OF refl])
    fix x assume "x \<in> set listed"
    with fails show "process_table session s p l x = create_table_model x s p l"
      by (intro process_table_fallback) blast
  qed
  with basic have "mapM (process_table session s p l) listed = Inr ts" by simp
  moreover from it have "py_len tables = Inr (length listed)" by (rule py_iter_len)
  ultimately show ?thesis
    using fqn r ok td tb it by (simp add: process_database_tables_def)
qed

lemma fetch_detailed_noenrich:
  assumes "failed_detail_fetch session q"
  shows "fetch_detailed_table_metadata (session(q := no_enrichment)) =
         fetch_detailed_table_metadata session"
proof (intro ext)
  fix tid s p l
  show "fetch_detailed_table_metadata (session(q := no_enrichment)) tid s p l =
        fetch_detailed_table_metadata session tid s p l"
  proof (cases "detail_request tid s p l = q")
    case True
    with assms have "case session (detail_request tid s p l) of
                       Inl e \<Rightarrow> True | Inr r \<Rightarrow> status_code r \<noteq> 200"
      by (simp add: failed_detail_fetch_def)
    then have "fetch_detailed_table_metadata session tid s p l = JNull"
      by (auto simp: fetch_detailed_table_metadata_def split: sum.splits)
    moreover have "fetch_detailed_table_metadata (session(q := no_enrichment)) tid s p l = JNull"
      using True by (simp add: fetch_detailed_table_metadata_def no_enrichment_def
          response_json_def)
    ultimately show ?thesis by simp
  next
    case False
    then show ?thesis by (simp add: fetch_detailed_table_metadata_def)
  qed
qed

lemma not_detail_request:
  assumes "failed_detail_fetch session q"
  shows "tables_request fqn \<noteq> q" "schemas_request fqn \<noteq> q"
    "databases_request name \<noteq> q" "service_request name \<noteq> q"
  using assms
  by (auto simp: failed_detail_fetch_def tables_request_def schemas_request_def
      databases_request_def service_request_def split: request.splits endpoint.splits)

lemma process_table_noenrich:
  assumes "failed_detail_fetch session q"
  shows "process_table (session(q := no_enrichment)) = process_table session"
  unfolding process_table_def fetch_detailed_noenrich [OF assms] ..

lemma process_database_tables_noenrich:
  assumes f: "failed_detail_fetch session q"
  shows "process_database_tables (session(q := no_enrichment)) =
         process_database_tables session"
proof (intro ext)
  fix schema s p l
  have "\<And>fqn. (session(q := no_enrichment)) (tables_request fqn) = session (tables_request fqn)"
    using not_detail_request(1) [OF f] by simp
  then show "process_database_tables (session(q := no_enrichment)) schema s p l =
        process_database_tables session schema s p l"
    unfolding process_database_tables_def process_table_noenrich [OF f] by simp
qed

lemma process_schema_noenrich:
  assumes f: "failed_detail_fetch session q"
  shows "process_schema (session(q := no_enrichment)) = process_schema session"
proof (intro ext)
  fix s p l schema
  show "process_schema (session(q := no_enrichment)) s p l schema =
        process_schema session s p l schema"
    by (cases schema) (simp_all add: process_database_tables_noenrich [OF f])
qed

lemma process_database_schemas_noenrich:
  assumes f: "failed_detail_fetch session q"
  shows "process_database_schemas (session(q := no_enrichment)) =
         process_database_schemas session"
proof (intro ext)
  fix db s p l
  have "\<And>fqn. (session(q := no_enrichment)) (schemas_request fqn) = session (schemas_request fqn)"
    using not_detail_request(2) [OF f] by simp
  then show "process_database_schemas (session(q := no_enrichment)) db s p l =
        process_database_schemas session db s p l"
    unfolding process_database_schemas_def process_schema_noenrich [OF f] by simp
qed

lemma process_database_noenrich:
  assumes f: "failed_detail_fetch session q"
  shows "process_database (session(q := no_enrichment)) = process_database session"
proof (intro ext)
  fix s p l database
  show "process_database (session(q := no_enrichment)) s p l database =
        process_database session s p l database"
    by (cases database) (simp_all add: process_database_schemas_noenrich [OF f])
qed

lemma databases_loop_noenrich:
  assumes f: "failed_detail_fetch session q"
  shows "databases_loop (session(q := no_enrichment)) s p l items st =
         databases_loop session s p l items st"
proof (induction items arbitrary: st)
  case Nil
  show ?case by simp
next
  case (Cons database rest)
  obtain dbs a b c where st: "st = (dbs, a, b, c)" by (cases st) auto
  show ?case
    unfolding st databases_loop.simps process_database_noenrich [OF f]
    by (rule bindE_cong [OF refl]) (simp add: Cons.IH split: prod.splits)
qed

lemma process_databases_noenrich:
  assumes f: "failed_detail_fetch session q"
  shows "process_databases (session(q := no_enrichment)) name s p l =
         process_databases session name s p l"
proof -
  have "(session(q := no_enrichment)) (databases_request name)
               = session (databases_request name)"
    using not_detail_request(3) [OF f] by simp
  then show ?thesis unfolding process_databases_def databases_loop_noenrich [OF f] by simp
qed

lemma fetch_service_metadata_noenrich:
  assumes f: "failed_detail_fetch session q"
  shows "fetch_service_metadata (session(q := no_enrichment)) name =
         fetch_service_metadata session name"
  using not_detail_request(4) [OF f] by (simp add: fetch_service_metadata_def)

lemma extract_noenrich:
  assumes f: "failed_detail_fetch session q"
  shows "extract_database_metadata (session(q := no_enrichment)) now name s p l =
         extract_database_metadata session now name s p l"
  unfolding extract_database_metadata_def fetch_service_metadata_noenrich [OF f]
    process_databases_noenrich [OF f] ..

subsection \<open>The request of the table listing\<close>

lemma get_service_tables_raises:
  assumes "session (GET Tables (table_filter_params name dn scn)) = Inl e"
  shows "get_service_tables session name dn scn ic =
           Inl (HTTPException 500 (Failed_to_list_tables e))"
  using assms by (simp add: get_service_tables_def)

lemma get_service_tables_error_status:
  assumes "session (GET Tables (table_filter_params name dn scn)) = Inr r"
    and "400 \<le> status_code r" and "status_code r < 600"
  shows "get_service_tables session name dn scn ic =
           Inl (HTTPException 500 (Failed_to_list_tables (HTTPError (Some r))))"
  using assms by (simp add: get_service_tables_def raise_for_status_def)

lemma get_service_tables_answered:
  assumes "get_service_tables session name dn scn ic = Inr listing"
  shows "case session (GET Tables (table_filter_params name dn scn)) of
           Inl e \<Rightarrow> False
         | Inr r \<Rightarrow> \<not> (400 \<le> status_code r \<and> status_code r < 600)"
proof (cases "session (GET Tables (table_filter_params name dn scn))")
  case (Inl e)
  from get_service_tables_raises [of session name dn scn e ic] Inl assms show ?thesis by simp
next
  case (Inr r)
  show ?thesis
  proof (cases "400 \<le> status_code r \<and> status_code r < 600")
    case True
    with get_service_tables_error_status [of session name dn scn r ic] Inr assms show ?thesis by simp
  next
    case False
    with Inr show ?thesis by simp
  qed
qed

subsection \<open>The example walk\<close>

lemma demo_extraction:
  "extract_database_metadata demo_session ''2024-01-01T00:00:00'' ''svc'' False False False =
     Inr \<lparr>resp_service = demo_service_model, resp_databases = demo_databases,
          resp_summary = demo_summary\<rparr>"
  by code_simp

section \<open>Claims\<close>

subsection \<open>C1: listing failures below the service level\<close>




subsection \<open>C2: derived counts\<close>

text \<open>
  C2 says that every derived count equals the length of its list, also on the flat
  table-listing endpoint for any value of \<open>include_columns\<close>. With
  \<open>include_columns = False\<close> the endpoint leaves \<open>columns\<close> empty but still sets
  \<open>column_count\<close> from the upstream record: here the count is 1 and the list is empty.
\<close>

theorem C2_counterexample:
  "map_sum id (map tbl_column_count \<circ> tr_tables)
       (get_service_tables listing_session ''svc'' None None False) = Inr [1] \<and>
   map_sum id (map tbl_columns \<circ> tr_tables)
       (get_service_tables listing_session ''svc'' None None False) = Inr [[]]"
  by code_simp

text \<open>
  C2, as amended. In every response of the metadata extraction, \<open>schema_count\<close>,
  \<open>table_count\<close>, \<open>column_count\<close> and the four summary totals equal the lengths of the
  lists materialized in the same response. In every response of the table listing,
  \<open>count\<close> is the length of \<open>tables\<close>; with \<open>include_columns = True\<close> every
  \<open>column_count\<close> is the length of \<open>columns\<close>, and with \<open>include_columns = False\<close>
  \<open>columns\<close> is empty while \<open>column_count\<close> is the number of columns of the upstream
  record. A schema whose tables listing failed has no table and the count zero, a database
  whose schemas listing failed has no schema and both counts zero, with no error.
\<close>

theorem C2_derived_counts:
  "(extract_database_metadata session now name s p l = Inr resp \<longrightarrow>
      list_all database_counts_ok (resp_databases resp) \<and>
      summary_counts_ok (resp_summary resp) (resp_databases resp)) \<and>
   (get_service_tables session name database_name schema_name include_columns = Inr listing
      \<longrightarrow>
      tr_count listing = length (tr_tables listing) \<and>
      (if include_columns then list_all table_counts_ok (tr_tables listing)
       else list_all (\<lambda>t. tbl_columns t = []) (tr_tables listing))) \<and>
   (listed_table_model False (JDict kvs) = Inr t \<longrightarrow>
      tbl_columns t = [] \<and>
      py_len (dict_get kvs ''columns'' (JList [])) = Inr (tbl_column_count t)) \<and>
   (process_schema session s p l schema = Inr sch \<and>
    py_get schema ''fullyQualifiedName'' JNull = Inr fqn \<and>
    session (tables_request fqn) = Inr r \<and> status_code r \<noteq> 200 \<longrightarrow>
      sch_tables sch = [] \<and> sch_table_count sch = 0) \<and>
   (process_database session s p l database = Inr (db, a, b, c) \<and>
    py_get database ''fullyQualifiedName'' JNull = Inr fqn' \<and>
    session (schemas_request fqn') = Inr r' \<and> status_code r' \<noteq> 200 \<longrightarrow>
      db_schemas db = [] \<and> db_schema_count db = 0 \<and> db_table_count db = 0)"
proof (intro conjI impI)
  assume "extract_database_metadata session now name s p l = Inr resp"
  then have "list_all database_counts_ok (resp_databases resp) \<and>
             summary_counts_ok (resp_summary resp) (resp_databases resp)"
    by (rule extract_counts)
  then show "list_all database_counts_ok (resp_databases resp)"
    and "summary_counts_ok (resp_summary resp) (resp_databases resp)"
    by blast+
next
  assume g: "get_service_tables session name database_name schema_name include_columns
               = Inr listing"
  from get_service_tables_Inr [OF g]
  show "tr_count listing = length (tr_tables listing)"
    and "if include_columns then list_all table_counts_ok (tr_tables listing)
         else list_all (\<lambda>t. tbl_columns t = []) (tr_tables listing)"
    by blast+
next
  assume "listed_table_model False (JDict kvs) = Inr t"
  from listed_table_model_no_columns [OF this]
  show "tbl_columns t = []"
    and "py_len (dict_get kvs ''columns'' (JList [])) = Inr (tbl_column_count t)"
    by blast+
next
  assume "process_schema session s p l schema = Inr sch \<and>
    py_get schema ''fullyQualifiedName'' JNull = Inr fqn \<and>
    session (tables_request fqn) = Inr r \<and> status_code r \<noteq> 200"
  then have "sch_tables sch = [] \<and> sch_table_count sch = 0"
    by (intro process_schema_failed [of session s p l schema sch fqn r]) blast+
  then show "sch_tables sch = []" and "sch_table_count sch = 0" by blast+
next
  assume "process_database session s p l database = Inr (db, a, b, c) \<and>
    py_get database ''fullyQualifiedName'' JNull = Inr fqn' \<and>
    session (schemas_request fqn') = Inr r' \<and> status_code r' \<noteq> 200"
  then have "db_schemas db = [] \<and> db_schema_count db = 0 \<and> db_table_count db = 0"
    by (intro process_database_failed [of session s p l database db a b c fqn' r']) blast+
  then show "db_schemas db = []" and "db_schema_count db = 0" and "db_table_count db = 0"
    by blast+
qed

text \<open>The counts of the example walk and of the example listings.\<close>

theorem C2_derived_counts_witness:
  "list_all database_counts_ok demo_databases \<and>
   summary_counts_ok demo_summary demo_databases \<and>
   (case get_service_tables listing_session ''svc'' None None True of
      Inl e \<Rightarrow> False
    | Inr listing \<Rightarrow> tr_count listing = 1 \<and> map tbl_column_count (tr_tables listing) = [1]
        \<and> map (length \<circ> tbl_columns) (tr_tables listing) = [1]) \<and>
   (case get_service_tables listing_session ''svc'' None None False of
      Inl e \<Rightarrow> False
    | Inr listing \<Rightarrow> tr_count listing = 1 \<and> map tbl_columns (tr_tables listing) = [[]]) \<and>
   map_sum id sch_table_count
     (process_schema demo_session False False False
        (JDict [(''name'', JStr ''s2''), (''fullyQualifiedName'', JStr ''svc.db1.s2'')]))
     = Inr 0 \<and>
   map_sum id (db_schema_count \<circ> fst)
     (process_database demo_session False False False
        (JDict [(''name'', JStr ''db2''), (''fullyQualifiedName'', JStr ''svc.db2'')]))
     = Inr 0"
proof -
  note t = C2_derived_counts
    [where session = demo_session and now = "''2024-01-01T00:00:00''" and name = "''svc''"
       and s = False and p = False and l = False
       and resp = "\<lparr>resp_service = demo_service_model, resp_databases = demo_databases,
                      resp_summary = demo_summary\<rparr>"]
  from t demo_extraction have
    "list_all database_counts_ok demo_databases \<and>
     summary_counts_ok demo_summary demo_databases"
    by simp
  moreover have
    "(case get_service_tables listing_session ''svc'' None None True of
      Inl e \<Rightarrow> False
    | Inr listing \<Rightarrow> tr_count listing = 1 \<and> map tbl_column_count (tr_tables listing) = [1]
        \<and> map (length \<circ> tbl_columns) (tr_tables listing) = [1]) \<and>
   (case get_service_tables listing_session ''svc'' None None False of
      Inl e \<Rightarrow> False
    | Inr listing \<Rightarrow> tr_count listing = 1 \<and> map tbl_columns (tr_tables listing) = [[]]) \<and>
   map_sum id sch_table_count
     (process_schema demo_session False False False
        (JDict [(''name'', JStr ''s2''), (''fullyQualifiedName'', JStr ''svc.db1.s2'')]))
     = Inr 0 \<and>
   map_sum id (db_schema_count \<circ> fst)
     (process_database demo_session False False False
        (JDict [(''name'', JStr ''db2''), (''fullyQualifiedName'', JStr ''svc.db2'')]))
     = Inr 0"
    by code_simp
  ultimately show ?thesis by (simp only: simp_thms)
qed

subsection \<open>C3: resolution of the column type and constraint\<close>

text \<open>
  C3 says that every column record takes \<open>dataType\<close> from the name of a structured type
  descriptor, and \<open>constraint\<close> likewise. The column records that
  \<^verbatim>\<open>get_service_tables\<close> builds inline do not: they hold the descriptor itself.
\<close>

theorem C3_counterexample:
  "map_sum id (map (map col_dataType \<circ> tbl_columns) \<circ> tr_tables)
       (get_service_tables listing_session ''svc'' None None True)
     = Inr [[JDict [(''name'', JStr ''DECIMAL'')]]] \<and>
   map_sum id (map (map col_constraint \<circ> tbl_columns) \<circ> tr_tables)
       (get_service_tables listing_session ''svc'' None None True)
     = Inr [[JDict [(''name'', JStr ''NOT_NULL'')]]]"
  by code_simp

text \<open>
  C3, as amended. For every column record returned by \<^verbatim>\<open>_create_column_model\<close>: when
  the source's \<open>dataType\<close> is a dictionary, \<open>dataType\<close> is its \<open>name\<close> and
  \<open>precision\<close>, \<open>scale\<close>, \<open>maxLength\<close> are its \<open>precision\<close>, \<open>scale\<close>, \<open>length\<close>;
  when it is a string, \<open>dataType\<close> is that string and the three are null; \<open>constraint\<close>
  is the \<open>name\<close> of a dictionary, or the string itself. The column records of the table
  listing hold the source's \<open>dataType\<close> and \<open>constraint\<close> unchanged, and null for the
  three.
\<close>

theorem C3_column_type_resolution:
  "(create_column_model (JDict kvs) = Inr c \<longrightarrow>
      (map_of kvs ''dataType'' = Some (JDict d) \<longrightarrow>
         col_dataType c = dict_get d ''name'' JNull \<and>
         col_precision c = dict_get d ''precision'' JNull \<and>
         col_scale c = dict_get d ''scale'' JNull \<and>
         col_maxLength c = dict_get d ''length'' JNull) \<and>
      (map_of kvs ''dataType'' = Some (JStr s) \<longrightarrow>
         col_dataType c = JStr s \<and> col_precision c = JNull \<and>
         col_scale c = JNull \<and> col_maxLength c = JNull) \<and>
      (map_of kvs ''constraint'' = Some (JDict d') \<longrightarrow>
         col_constraint c = dict_get d' ''name'' JNull) \<and>
      (map_of kvs ''constraint'' = Some (JStr s') \<longrightarrow> col_constraint c = JStr s')) \<and>
   (listed_column_model (JDict kvs') = Inr c' \<longrightarrow>
      col_dataType c' = dict_get kvs' ''dataType'' JNull \<and>
      col_constraint c' = dict_get kvs' ''constraint'' JNull \<and>
      col_precision c' = JNull \<and> col_scale c' = JNull \<and> col_maxLength c' = JNull)"
  using column_resolution [of kvs c] listed_column_passthrough [of kvs' c']
  by blast

text \<open>A structured column, a flat one, and a column of the table listing.\<close>

theorem C3_column_type_resolution_witness:
  "create_column_model
     (JDict [(''name'', JStr ''amount''),
             (''dataType'', JDict [(''name'', JStr ''DECIMAL''), (''precision'', JInt 10),
                                   (''scale'', JInt 2)]),
             (''constraint'', JDict [(''name'', JStr ''NOT_NULL'')]),
             (''tags'', JList [JDict [(''tagFQN'', JStr ''Nested.Only'')]])])
     = Inr demo_child_model \<and>
   col_dataType demo_child_model = JStr ''DECIMAL'' \<and>
   col_precision demo_child_model = JInt 10 \<and> col_scale demo_child_model = JInt 2 \<and>
   col_maxLength demo_child_model = JNull \<and>
   col_constraint demo_child_model = JStr ''NOT_NULL'' \<and>
   create_column_model demo_column = Inr demo_column_model \<and>
   col_dataType demo_column_model = JStr ''STRUCT'' \<and>
   col_precision demo_column_model = JNull \<and>
   listed_column_model
     (JDict [(''name'', JStr ''amount''), (''dataType'', JStr ''DECIMAL''),
             (''constraint'', JStr ''NOT_NULL'')])
     = Inr (ColumnModel ''amount'' (JStr ''DECIMAL'') JNull JNull JNull (JStr ''NOT_NULL'') []
              JNull JNull JNull JNull JNull JNull JNull JNull JNull [] JNull)"
proof -
  have a: "create_column_model
     (JDict [(''name'', JStr ''amount''),
             (''dataType'', JDict [(''name'', JStr ''DECIMAL''), (''precision'', JInt 10),
                                   (''scale'', JInt 2)]),
             (''constraint'', JDict [(''name'', JStr ''NOT_NULL'')]),
             (''tags'', JList [JDict [(''tagFQN'', JStr ''Nested.Only'')]])])
     = Inr demo_child_model"
    by code_simp
  have b: "listed_column_model
     (JDict [(''name'', JStr ''amount''), (''dataType'', JStr ''DECIMAL''),
             (''constraint'', JStr ''NOT_NULL'')])
     = Inr (ColumnModel ''amount'' (JStr ''DECIMAL'') JNull JNull JNull (JStr ''NOT_NULL'') []
              JNull JNull JNull JNull JNull JNull JNull JNull JNull [] JNull)"
    by code_simp
  have m: "map_of [(''name'', JStr ''amount''),
             (''dataType'', JDict [(''name'', JStr ''DECIMAL''), (''precision'', JInt 10),
                                   (''scale'', JInt 2)]),
             (''constraint'', JDict [(''name'', JStr ''NOT_NULL'')]),
             (''tags'', JList [JDict [(''tagFQN'', JStr ''Nested.Only'')]])] ''dataType''
           = Some (JDict [(''name'', JStr ''DECIMAL''), (''precision'', JInt 10),
                          (''scale'', JInt 2)])"
    by code_simp
  note t = C3_column_type_resolution
    [where kvs = "[(''name'', JStr ''amount''),
             (''dataType'', JDict [(''name'', JStr ''DECIMAL''), (''precision'', JInt 10),
                                   (''scale'', JInt 2)]),
             (''constraint'', JDict [(''name'', JStr ''NOT_NULL'')]),
             (''tags'', JList [JDict [(''tagFQN'', JStr ''Nested.Only'')]])]"
       and c = demo_child_model
       and d = "[(''name'', JStr ''DECIMAL''), (''precision'', JInt 10), (''scale'', JInt 2)]"
       and kvs' = "[(''name'', JStr ''amount''), (''dataType'', JStr ''DECIMAL''),
                    (''constraint'', JStr ''NOT_NULL'')]"
       and c' = "ColumnModel ''amount'' (JStr ''DECIMAL'') JNull JNull JNull (JStr ''NOT_NULL'') []
              JNull JNull JNull JNull JNull JNull JNull JNull JNull [] JNull"]
  from t a b m have
    "col_dataType demo_child_model =
       dict_get [(''name'', JStr ''DECIMAL''), (''precision'', JInt 10), (''scale'', JInt 2)]
         ''name'' JNull"
    by blast
  moreover have
   "col_dataType demo_child_model = JStr ''DECIMAL'' \<and>
   col_precision demo_child_model = JInt 10 \<and> col_scale demo_child_model = JInt 2 \<and>
   col_maxLength demo_child_model = JNull \<and>
   col_constraint demo_child_model = JStr ''NOT_NULL'' \<and>
   create_column_model demo_column = Inr demo_column_model \<and>
   col_dataType demo_column_model = JStr ''STRUCT'' \<and>
   col_precision demo_column_model = JNull"
    by code_simp
  ultimately show ?thesis using a b by (simp only: simp_thms)
qed

subsection \<open>C4: normalization is not total\<close>

text \<open>
  C4 says that every normalization function returns an entity for every upstream
  mapping and never raises. \<^verbatim>\<open>_create_column_model\<close> guards \<open>dataType\<close>,
  \<open>precision\<close>, \<open>scale\<close> and \<open>maxLength\<close> with \<^verbatim>\<open>isinstance(data_type_info, dict)\<close>,
  but \<open>dataTypeDisplay\<close> calls \<^verbatim>\<open>data_type_info.get("displayName")\<close> without the guard.
  A column whose \<open>dataType\<close> is the flat string \<open>INT\<close> and that has no
  \<open>dataTypeDisplay\<close> therefore raises AttributeError instead of giving a record.
\<close>

theorem C4_flat_dataType_raises:
  "create_column_model (JDict [(''name'', JStr ''id''), (''dataType'', JStr ''INT'')])
     = Inl AttributeError"
  by code_simp

subsection \<open>C5: enrichment is best-effort\<close>



subsection \<open>C6: distinct non-empty owner names and tag identifiers\<close>

text \<open>
  C6. In every summary, \<open>total_owners\<close> is the number of distinct non-empty owner names
  of the service, the databases, the schemas and the tables, and \<open>total_tags\<close> the
  number of distinct non-empty tag identifiers of all of those and of the columns of the
  tables; the empty name is taken out of both sets, so it never adds to a count.
\<close>

theorem C6_distinct_nonempty_cardinalities:
  assumes "create_metadata_summary svc dbs stats now = Inr m"
  shows "total_owners m = card (spec_owner_names svc dbs - {[]}) \<and>
         total_tags m = card (spec_tag_fqns svc dbs - {[]})"
  using assms unfolding create_metadata_summary_def collected_sets
  by (elim bindE_InrE) clarsimp

text \<open>
  The example tree: the owners are alice (twice), bob and one with the empty name.
\<close>

theorem C6_distinct_nonempty_cardinalities_witness:
  "create_metadata_summary demo_service_model demo_databases demo_stats ''2024-01-01T00:00:00''
     = Inr demo_summary \<and>
   total_owners demo_summary = 2 \<and>
   spec_owner_names demo_service_model demo_databases - {[]} = {''alice'', ''bob''} \<and>
   total_tags demo_summary = 2 \<and>
   spec_tag_fqns demo_service_model demo_databases - {[]} = {''Tier.Gold'', ''PII.Sensitive''}"
proof -
  have h: "create_metadata_summary demo_service_model demo_databases demo_stats
             ''2024-01-01T00:00:00'' = Inr demo_summary"
    by code_simp
  have s: "spec_owner_names demo_service_model demo_databases - {[]} = {''alice'', ''bob''}"
    "spec_tag_fqns demo_service_model demo_databases - {[]} = {''Tier.Gold'', ''PII.Sensitive''}"
    by code_simp+
  from C6_distinct_nonempty_cardinalities [OF h] have "total_owners demo_summary = card {''alice'', ''bob''}"
    and "total_tags demo_summary = card {''Tier.Gold'', ''PII.Sensitive''}"
    by (simp_all only: s)
  then have "total_owners demo_summary = 2" "total_tags demo_summary = 2" by simp_all
  with h s show ?thesis by (simp only: simp_thms)
qed

subsection \<open>C7: a conflict during creation\<close>

text \<open>
  C7 says that a 409 Conflict answer to the creation call is translated into the
  "already exists" success message. The handler tests
  \<^verbatim>\<open>http_error.response and http_error.response.status_code == 409\<close>, and the truth
  value of a response with a 4xx status is false, so the test never holds: with the
  service not found by the pre-check and the creation call answered with 409, the caller
  gets a 500 error response.
\<close>

theorem C7_conflict_becomes_500:
  "create_database_service conflict_session demo_payload =
     Inl (HTTPException 500
           (Creation_failed_str_of_error
              (HTTPError (Some \<lparr>status_code = 409,
                 body = Some (JDict [(''code'', JInt 409),
                                     (''message'', JStr ''Entity already exists'')]),
                 resp_text = []\<rparr>))))"
  by code_simp

subsection \<open>C8: the service is not found\<close>

text \<open>
  C8 says that the error response tells a service that is not found (404) from a
  generic upstream failure (500). \<^verbatim>\<open>_fetch_service_metadata\<close> calls
  \<^verbatim>\<open>raise_for_status()\<close> before it tests the status code, so an upstream 404 raises
  HTTPError and becomes a 500, like any other upstream failure.
\<close>

theorem C8_not_found_becomes_500:
  "extract_database_metadata not_found_session ''2024-01-01T00:00:00'' ''svc''
       False False False =
     Inl (HTTPException 500
           (Failed_to_fetch_service_metadata
              (HTTPError (Some \<lparr>status_code = 404, body = None, resp_text = []\<rparr>))))"
  by code_simp

subsection \<open>C9: the upstream filter and its echo\<close>

text \<open>
  C9 says that with both \<open>database_name\<close> and \<open>schema_name\<close> supplied the upstream
  filter is \<open>databaseSchema\<close>. The source tests the truth of the two strings, and the
  empty string is false: with \<open>database_name\<close> supplied as the empty string the filter
  is the service parameter (the session here answers that request only, with one table),
  while the response still echoes both names.
\<close>

theorem C9_counterexample:
  "table_filter_params ''svc'' (Some []) (Some ''s1'') = [(''service'', JStr ''svc'')] \<and>
   map_sum id tr_filter
       (get_service_tables listing_session ''svc'' (Some []) (Some ''s1'') True)
     = Inr \<lparr>filter_database_name = Some [], filter_schema_name = Some ''s1'',
            filter_include_columns = True\<rparr> \<and>
   map_sum id (map tbl_name \<circ> tr_tables)
       (get_service_tables listing_session ''svc'' (Some []) (Some ''s1'') True)
     = Inr [''orders'']"
  by code_simp

text \<open>
  C9, as amended. For every table-listing request: when \<open>database_name\<close> and
  \<open>schema_name\<close> are both supplied and non-empty, the upstream filter is the single
  parameter \<open>databaseSchema\<close> set to service, database and schema name joined by dots;
  when only \<open>database_name\<close> is supplied and non-empty, it is the single parameter
  \<open>database\<close>; when \<open>database_name\<close> is absent or empty, it is the single parameter
  \<open>service\<close>. The request with that filter is the one sent: the result depends on the
  session only through its answer, a fault or an error status of that request ends in a
  500, a listing is returned only when that request was answered without error status, and
  the tables returned are those of its answer. A response echoes exactly the requested
  \<open>database_name\<close>, \<open>schema_name\<close> and \<open>include_columns\<close>.
\<close>

theorem C9_filter_and_echo:
  "(d \<noteq> [] \<and> sc \<noteq> [] \<longrightarrow>
      table_filter_params name (Some d) (Some sc) =
        [(''databaseSchema'', JStr (name @ ''.'' @ d @ ''.'' @ sc))]) \<and>
   (d \<noteq> [] \<and> (schema_name = None \<or> schema_name = Some []) \<longrightarrow>
      table_filter_params name (Some d) schema_name =
        [(''database'', JStr (name @ ''.'' @ d))]) \<and>
   (database_name = None \<or> database_name = Some [] \<longrightarrow>
      table_filter_params name database_name schema_name = [(''service'', JStr name)]) \<and>
   (session' (GET Tables (table_filter_params name database_name schema_name)) =
      session (GET Tables (table_filter_params name database_name schema_name)) \<longrightarrow>
      get_service_tables session' name database_name schema_name include_columns =
      get_service_tables session name database_name schema_name include_columns) \<and>
   (get_service_tables session name database_name schema_name include_columns = Inr listing
      \<longrightarrow>
      tr_filter listing =
        \<lparr>filter_database_name = database_name, filter_schema_name = schema_name,
         filter_include_columns = include_columns\<rparr> \<and>
      (case session (GET Tables (table_filter_params name database_name schema_name)) of
         Inl e \<Rightarrow> False
       | Inr r \<Rightarrow> \<not> (400 \<le> status_code r \<and> status_code r < 600))) \<and>
   (session (GET Tables (table_filter_params name database_name schema_name)) = Inl e \<longrightarrow>
      get_service_tables session name database_name schema_name include_columns =
        Inl (HTTPException 500 (Failed_to_list_tables e))) \<and>
   (session (GET Tables (table_filter_params name database_name schema_name)) = Inr r \<and>
    400 \<le> status_code r \<and> status_code r < 600 \<longrightarrow>
      get_service_tables session name database_name schema_name include_columns =
        Inl (HTTPException 500 (Failed_to_list_tables (HTTPError (Some r))))) \<and>
   (session (GET Tables (table_filter_params name database_name schema_name)) = Inr r \<and>
    \<not> (400 \<le> status_code r \<and> status_code r < 600) \<and>
    response_json r = Inr tables_data \<and>
    py_get tables_data ''data'' (JList []) = Inr tables \<and>
    truthy tables \<and> py_iter tables = Inr items \<and>
    mapM (listed_table_model include_columns) items = Inr ts \<longrightarrow>
      get_service_tables session name database_name schema_name include_columns =
        Inr \<lparr>tr_service_name = name,
             tr_filter = \<lparr>filter_database_name = database_name,
                          filter_schema_name = schema_name,
                          filter_include_columns = include_columns\<rparr>,
             tr_tables = ts, tr_count = length ts\<rparr>) \<and>
   (d \<noteq> [] \<and> sc \<noteq> [] \<and>
    session (GET Tables [(''databaseSchema'', JStr (name @ ''.'' @ d @ ''.'' @ sc))]) = Inl e
      \<longrightarrow>
      get_service_tables session name (Some d) (Some sc) include_columns =
        Inl (HTTPException 500 (Failed_to_list_tables e)))"
proof (intro conjI impI)
  assume "d \<noteq> [] \<and> sc \<noteq> []"
  then show "table_filter_params name (Some d) (Some sc) =
        [(''databaseSchema'', JStr (name @ ''.'' @ d @ ''.'' @ sc))]"
    by (simp add: table_filter_params_def str_truthy_def)
next
  assume "d \<noteq> [] \<and> (schema_name = None \<or> schema_name = Some [])"
  then show "table_filter_params name (Some d) schema_name =
        [(''database'', JStr (name @ ''.'' @ d))]"
    by (auto simp: table_filter_params_def str_truthy_def)
next
  assume "database_name = None \<or> database_name = Some []"
  then show "table_filter_params name database_name schema_name = [(''service'', JStr name)]"
    by (auto simp: table_filter_params_def str_truthy_def)
next
  assume "session' (GET Tables (table_filter_params name database_name schema_name)) =
      session (GET Tables (table_filter_params name database_name schema_name))"
  then show "get_service_tables session' name database_name schema_name include_columns =
      get_service_tables session name database_name schema_name include_columns"
    by (rule get_service_tables_request)
next
  assume g: "get_service_tables session name database_name schema_name include_columns
            = Inr listing"
  from get_service_tables_Inr [OF g]
  show "tr_filter listing =
        \<lparr>filter_database_name = database_name, filter_schema_name = schema_name,
         filter_include_columns = include_columns\<rparr>"
    by blast
  from g show "case session (GET Tables (table_filter_params name database_name schema_name)) of
         Inl e \<Rightarrow> False
       | Inr r \<Rightarrow> \<not> (400 \<le> status_code r \<and> status_code r < 600)"
    by (rule get_service_tables_answered)
next
  assume "session (GET Tables (table_filter_params name database_name schema_name)) = Inl e"
  then show "get_service_tables session name database_name schema_name include_columns =
        Inl (HTTPException 500 (Failed_to_list_tables e))"
    by (simp add: get_service_tables_def)
next
  assume "session (GET Tables (table_filter_params name database_name schema_name)) = Inr r \<and>
    400 \<le> status_code r \<and> status_code r < 600"
  then show "get_service_tables session name database_name schema_name include_columns =
        Inl (HTTPException 500 (Failed_to_list_tables (HTTPError (Some r))))"
    by (simp add: get_service_tables_def raise_for_status_def)
next
  assume "session (GET Tables (table_filter_params name database_name schema_name)) = Inr r \<and>
    \<not> (400 \<le> status_code r \<and> status_code r < 600) \<and>
    response_json r = Inr tables_data \<and>
    py_get tables_data ''data'' (JList []) = Inr tables \<and>
    truthy tables \<and> py_iter tables = Inr items \<and>
    mapM (listed_table_model include_columns) items = Inr ts"
  then show "get_service_tables session name database_name schema_name include_columns =
        Inr \<lparr>tr_service_name = name,
             tr_filter = \<lparr>filter_database_name = database_name,
                          filter_schema_name = schema_name,
                          filter_include_columns = include_columns\<rparr>,
             tr_tables = ts, tr_count = length ts\<rparr>"
    by (simp add: get_service_tables_def raise_for_status_def)
next
  assume "d \<noteq> [] \<and> sc \<noteq> [] \<and>
    session (GET Tables [(''databaseSchema'', JStr (name @ ''.'' @ d @ ''.'' @ sc))]) = Inl e"
  then show "get_service_tables session name (Some d) (Some sc) include_columns =
        Inl (HTTPException 500 (Failed_to_list_tables e))"
    by (simp add: get_service_tables_def table_filter_params_def str_truthy_def)
qed

text \<open>
  The request of the spec, database \<open>db1\<close> and schema \<open>s1\<close>: on a session that
  answers the \<open>databaseSchema\<close> request only, on one that differs from it elsewhere, on
  one that raises, and on one that answers that request with 404.
\<close>

theorem C9_filter_and_echo_witness:
  "table_filter_params ''svc'' (Some ''db1'') (Some ''s1'') =
     [(''databaseSchema'', JStr ''svc.db1.s1'')] \<and>
   table_filter_params ''svc'' (Some ''db1'') None = [(''database'', JStr ''svc.db1'')] \<and>
   table_filter_params ''svc'' None None = [(''service'', JStr ''svc'')] \<and>
   get_service_tables schema_tables_session ''svc'' (Some ''db1'') (Some ''s1'') True =
     Inr \<lparr>tr_service_name = ''svc'',
          tr_filter = \<lparr>filter_database_name = Some ''db1'', filter_schema_name = Some ''s1'',
                       filter_include_columns = True\<rparr>,
          tr_tables = [blank_table\<lparr>tbl_id := ''t1'', tbl_name := ''orders''\<rparr>],
          tr_count = 1\<rparr> \<and>
   get_service_tables (schema_tables_session(GET Tables [] := Inl TransportError))
       ''svc'' (Some ''db1'') (Some ''s1'') True =
     get_service_tables schema_tables_session ''svc'' (Some ''db1'') (Some ''s1'') True \<and>
   get_service_tables unreachable_session ''svc'' (Some ''db1'') (Some ''s1'') True =
     Inl (HTTPException 500 (Failed_to_list_tables TransportError)) \<and>
   get_service_tables listing_session ''svc'' (Some ''db1'') (Some ''s1'') True =
     Inl (HTTPException 500
           (Failed_to_list_tables
              (HTTPError (Some \<lparr>status_code = 404, body = None, resp_text = []\<rparr>))))"
proof -
  let ?q = "GET Tables (table_filter_params ''svc'' (Some ''db1'') (Some ''s1''))"
  let ?items = "[JDict [(''id'', JStr ''t1''), (''name'', JStr ''orders'')]]"
  let ?data = "JDict [(''data'', JList ?items)]"
  let ?r = "\<lparr>status_code = 200, body = Some ?data, resp_text = []\<rparr>"
  let ?ts = "[blank_table\<lparr>tbl_id := ''t1'', tbl_name := ''orders''\<rparr>]"
  let ?nf = "\<lparr>status_code = 404, body = None, resp_text = []\<rparr>"
  have ne: "''db1'' \<noteq> [] \<and> ''s1'' \<noteq> []" by simp
  note t0 = C9_filter_and_echo [where d = "''db1''" and sc = "''s1''" and name = "''svc''"
      and schema_name = None and database_name = None
      and session = unreachable_session and e = TransportError and include_columns = True]
  from t0 have p:
    "table_filter_params ''svc'' (Some ''db1'') (Some ''s1'') =
       [(''databaseSchema'', JStr (''svc'' @ ''.'' @ ''db1'' @ ''.'' @ ''s1''))]"
    "table_filter_params ''svc'' (Some ''db1'') None =
       [(''database'', JStr (''svc'' @ ''.'' @ ''db1''))]"
    "table_filter_params ''svc'' None None = [(''service'', JStr ''svc'')]"
    by simp_all
  have u: "unreachable_session
             (GET Tables [(''databaseSchema'', JStr (''svc'' @ ''.'' @ ''db1'' @ ''.'' @ ''s1''))])
           = Inl TransportError"
    by (simp add: unreachable_session_def)
  from t0 ne u have un:
    "get_service_tables unreachable_session ''svc'' (Some ''db1'') (Some ''s1'') True =
       Inl (HTTPException 500 (Failed_to_list_tables TransportError))"
    by blast
  have a: "schema_tables_session ?q = Inr ?r \<and>
           \<not> (400 \<le> status_code ?r \<and> status_code ?r < 600) \<and>
           response_json ?r = Inr ?data \<and>
           py_get ?data ''data'' (JList []) = Inr (JList ?items) \<and>
           truthy (JList ?items) \<and> py_iter (JList ?items) = Inr ?items \<and>
           mapM (listed_table_model True) ?items = Inr ?ts"
    by code_simp
  have agree: "(schema_tables_session(GET Tables [] := Inl TransportError)) ?q
                 = schema_tables_session ?q"
    by code_simp
  note t1 = C9_filter_and_echo [where name = "''svc''" and database_name = "Some ''db1''"
      and schema_name = "Some ''s1''" and session = schema_tables_session
      and session' = "schema_tables_session(GET Tables [] := Inl TransportError)"
      and include_columns = True and r = ?r and tables_data = ?data
      and tables = "JList ?items" and items = ?items and ts = ?ts]
  from t1 a have ok:
    "get_service_tables schema_tables_session ''svc'' (Some ''db1'') (Some ''s1'') True =
     Inr \<lparr>tr_service_name = ''svc'',
          tr_filter = \<lparr>filter_database_name = Some ''db1'', filter_schema_name = Some ''s1'',
                       filter_include_columns = True\<rparr>,
          tr_tables = ?ts, tr_count = length ?ts\<rparr>"
    by blast
  from t1 agree have fr:
    "get_service_tables (schema_tables_session(GET Tables [] := Inl TransportError))
       ''svc'' (Some ''db1'') (Some ''s1'') True =
     get_service_tables schema_tables_session ''svc'' (Some ''db1'') (Some ''s1'') True"
    by blast
  have b: "listing_session ?q = Inr ?nf \<and> 400 \<le> status_code ?nf \<and> status_code ?nf < 600"
    by code_simp
  note t2 = C9_filter_and_echo [where name = "''svc''" and database_name = "Some ''db1''"
      and schema_name = "Some ''s1''" and session = listing_session
      and include_columns = True and r = ?nf]
  from t2 b have nf:
    "get_service_tables listing_session ''svc'' (Some ''db1'') (Some ''s1'') True =
     Inl (HTTPException 500 (Failed_to_list_tables (HTTPError (Some ?nf))))"
    by blast
  from p ok fr un nf show ?thesis by simp
qed

subsection \<open>C10: tags of nested child columns\<close>

text \<open>
  C10. The summary, and with it \<open>total_tags\<close>, does not change when the children of the
  top-level columns are replaced by any other columns: the tags of nested child columns,
  at any depth, are never collected.
\<close>

theorem C10_nested_children_not_counted:
  "create_metadata_summary svc (map (replace_children_database g) dbs) stats now =
     create_metadata_summary svc dbs stats now"
  unfolding create_metadata_summary_def tables_replace mapM_map fold_collect_database
  by (simp add: replace_children_table_def)

text \<open>
  The example tree without the child column, whose tag occurs nowhere else: the summary
  is the same, with two tags.
\<close>

theorem C10_nested_children_not_counted_witness:
  "create_metadata_summary demo_service_model
       (map (replace_children_database (\<lambda>c. [])) demo_databases) demo_stats
       ''2024-01-01T00:00:00'' = Inr demo_summary \<and>
   total_tags demo_summary = 2 \<and>
   col_tags demo_child_model = [named_tag ''Nested.Only'']"
proof -
  have h: "create_metadata_summary demo_service_model demo_databases demo_stats
             ''2024-01-01T00:00:00'' = Inr demo_summary"
    by code_simp
  have "total_tags demo_summary = 2 \<and> col_tags demo_child_model = [named_tag ''Nested.Only'']"
    by code_simp
  with h C10_nested_children_not_counted [of demo_service_model "\<lambda>c. []" demo_databases demo_stats "''2024-01-01T00:00:00''"]
  show ?thesis by (simp only: simp_thms)
qed

end
